theory Spec2Isabelle
  imports Main
begin

section \<open>JavaScript values of a request body\<close>

text \<open>
  A request body is parsed JSON. The handlers test values for truthiness, read the
  property \<open>id\<close> of a tag entry and ask for its \<open>typeof\<close>. Numbers are kept as
  integers (their fraction plays no part in any test of the handlers); a string is a list
  of characters, one \<open>char\<close> for each code unit that \<open>.length\<close> counts.
\<close>

datatype jsval =
    JUndefined
  | JNull
  | JBool bool
  | JNum int
  | JStr string
  | JArr "jsval list"
  | JObj "(string \<times> jsval) list"

datatype err = TypeError | StoreError | HeadersSent

fun truthy :: "jsval \<Rightarrow> bool" where
  "truthy JUndefined = False"
| "truthy JNull = False"
| "truthy (JBool b) = b"
| "truthy (JNum n) = (n \<noteq> 0)"
| "truthy (JStr s) = (s \<noteq> [])"
| "truthy (JArr xs) = True"
| "truthy (JObj kvs) = True"

fun typeof :: "jsval \<Rightarrow> string" where
  "typeof JUndefined = ''undefined''"
| "typeof JNull = ''object''"
| "typeof (JBool b) = ''boolean''"
| "typeof (JNum n) = ''number''"
| "typeof (JStr s) = ''string''"
| "typeof (JArr xs) = ''object''"
| "typeof (JObj kvs) = ''object''"

text \<open>
  The member access \<open>v.id\<close>: a TypeError on \<open>undefined\<close> and \<open>null\<close>, the property
  of an object (the last of duplicate keys, as \<open>JSON.parse\<close> keeps it), and
  \<open>undefined\<close> on every other value.
\<close>

fun get_id :: "jsval \<Rightarrow> err + jsval" where
  "get_id JUndefined = Inl TypeError"
| "get_id JNull = Inl TypeError"
| "get_id (JObj kvs) =
     Inr (case map_of (rev kvs) ''id'' of None \<Rightarrow> JUndefined | Some v \<Rightarrow> v)"
| "get_id (JBool b) = Inr JUndefined"
| "get_id (JNum n) = Inr JUndefined"
| "get_id (JStr s) = Inr JUndefined"
| "get_id (JArr xs) = Inr JUndefined"

text \<open>\<open>!s\<close> for a string that may be missing: true for \<open>undefined\<close> and for \<open>""\<close>.\<close>

fun falsy :: "string option \<Rightarrow> bool" where
  "falsy None = True"
| "falsy (Some s) = (s = [])"

section \<open>Data model\<close>

text \<open>
  The status codes the handlers take from \<open>http-codes\<close>, and their numbers.
\<close>

datatype code = OK | CREATED | NOT_FOUND | UNPROCESSABLE_ENTITY | INTERNAL_SERVER_ERROR

fun status :: "code \<Rightarrow> nat" where
  "status OK = 200"
| "status CREATED = 201"
| "status NOT_FOUND = 404"
| "status UNPROCESSABLE_ENTITY = 422"
| "status INTERNAL_SERVER_ERROR = 500"

text \<open>
  A stored playground. The handlers pass \<open>name\<close>, \<open>description\<close>, \<open>author\<close>,
  \<open>pixiVersion\<close>, \<open>isPublic\<close> and \<open>externalJs\<close> through as they arrive; only
  \<open>contents\<close>, \<open>slug\<close> and \<open>versionsCount\<close> are inspected.
\<close>

record Playground =
  pg_id :: int
  slug :: string
  name :: jsval
  description :: jsval
  contents :: string
  author :: jsval
  pixiVersion :: jsval
  isPublic :: jsval
  externalJs :: jsval
  versionsCount :: int

text \<open>\<open>new Tag({ id: ... })\<close>: a tag instance holds the id it was given.\<close>

record Tag =
  tag_id :: jsval

text \<open>
  The fields a handler reads from \<open>req.body\<close>. \<open>b_id\<close> is read by PUT only.
  A missing \<open>contents\<close>, \<open>tags\<close> or \<open>id\<close> is \<open>None\<close>.
\<close>

record body =
  b_id :: "int option"
  b_name :: jsval
  b_description :: jsval
  b_contents :: "string option"
  b_author :: jsval
  b_pixiVersion :: jsval
  b_isPublic :: jsval
  b_tags :: "jsval list option"
  b_externalJs :: jsval

record put_req =
  p_slug :: "string option"
  p_body :: body

text \<open>What \<open>res.json\<close> is given as the body.\<close>

datatype payload =
    Msg
  | Item Playground
  | Items "Playground list"
  | No_body
  | Legacy_item jsval jsval

text \<open>
  Everything a handler does to the outside, in the order it does it: the log, the
  response, \<open>next()\<close>, the calls of the store, the cache purge, and the end of a
  transaction.
\<close>

datatype event =
    Log_error
  | Log_info
  | Log_debug
  | Res_json code payload
  | Next
  | Ev_search string
  | Ev_create
  | Ev_findById "int option"
  | Ev_update int
  | Ev_set_tags int "Tag list"
  | Purge "string list"
  | Commit
  | Rollback
  | Ev_getPlayground string string

text \<open>
  The store: the playground rows by id, and for each playground the tags attached to it.
\<close>

record db =
  rows :: "int \<rightharpoonup> Playground"
  links :: "int \<Rightarrow> Tag list"

text \<open>
  The state of one request: the committed store, the store as the open transaction
  sees it, and the trace of the request.
\<close>

record world =
  committed :: db
  working :: db
  events :: "event list"

text \<open>
  What the source takes from outside \<open>src/\<close>: whether a second \<open>res.json\<close> on the
  same response throws (it does in some versions of the framework and is ignored in others),
  what \<open>Playground.search\<close> resolves to, which store calls reject, the id and the slug
  the model generates for a new row, whether the cache purge fails, and what
  \<open>data.getPlayground\<close> hands to its callback (error, item, contents).
\<close>

record env =
  resend_throws :: bool
  search_result :: "string \<Rightarrow> err + Playground list option"
  findById_rejects :: bool
  create_rejects :: bool
  update_rejects :: bool
  set_rejects :: bool
  new_id :: int
  new_slug :: string
  purge_fails :: bool
  getPlayground_result :: "string \<Rightarrow> string \<Rightarrow> jsval \<times> jsval \<times> jsval"

section \<open>Promises\<close>

text \<open>
  A promise is a computation over the state of the request that resolves (\<open>Inr\<close>) or
  rejects (\<open>Inl\<close>). A callback that throws rejects the promise \<open>then\<close> returns;
  \<open>catch\<close> turns a rejection into whatever its handler returns.
\<close>

type_synonym 'a io = "world \<Rightarrow> (err + 'a) \<times> world"

definition resolve :: "'a \<Rightarrow> 'a io" where
  "resolve v w = (Inr v, w)"

definition then_p :: "'a io \<Rightarrow> ('a \<Rightarrow> 'b io) \<Rightarrow> 'b io" where
  "then_p m f w = (case m w of (Inl e, w') \<Rightarrow> (Inl e, w') | (Inr v, w') \<Rightarrow> f v w')"

definition catch_p :: "'a io \<Rightarrow> (err \<Rightarrow> 'a io) \<Rightarrow> 'a io" where
  "catch_p m h w = (case m w of (Inl e, w') \<Rightarrow> h e w' | (Inr v, w') \<Rightarrow> (Inr v, w'))"

text \<open>Two statements in a row: the second runs unless the first throws.\<close>

definition seq :: "unit io \<Rightarrow> 'a io \<Rightarrow> 'a io" where
  "seq m k = then_p m (\<lambda>_. k)"

definition emit :: "event \<Rightarrow> unit io" where
  "emit e w = (Inr (), w\<lparr>events := events w @ [e]\<rparr>)"

section \<open>The response\<close>

fun responses :: "event list \<Rightarrow> (code \<times> payload) list" where
  "responses [] = []"
| "responses (Res_json c b # es) = (c, b) # responses es"
| "responses (e # es) = responses es"

text \<open>
  \<open>res.json(code, body)\<close>. Every call is in the trace. A call on a response that was
  already sent throws when the framework does so.
\<close>

definition res_json :: "env \<Rightarrow> code \<Rightarrow> payload \<Rightarrow> unit io" where
  "res_json en c b w =
     (let sent = (responses (events w) \<noteq> []);
          w' = w\<lparr>events := events w @ [Res_json c b]\<rparr>
      in if sent \<and> resend_throws en then (Inl HeadersSent, w') else (Inr (), w'))"

text \<open>
  What the caller receives: a response is sent once, so it is the first one.
\<close>

definition delivered :: "world \<Rightarrow> (code \<times> payload) option" where
  "delivered w = (case responses (events w) of [] \<Rightarrow> None | r # rs \<Rightarrow> Some r)"

section \<open>Tag preparation\<close>

text \<open>
  \<open>prepareTags(log, tagsData)\<close>: the loop over the indices of \<open>tagsData\<close>, with the
  array \<open>tags\<close> it pushes to. An entry is kept when it is truthy and the \<open>typeof\<close> of
  its \<open>id\<close> is \<open>number\<close>; every other entry is logged and skipped. The log line
  formats the entry with \<open>JSON.stringify\<close>, which returns on every value of a parsed body.
\<close>

fun prepareTags_loop :: "jsval list \<Rightarrow> Tag list \<Rightarrow> Tag list io" where
  "prepareTags_loop [] tags w = (Inr tags, w)"
| "prepareTags_loop (d # ds) tags w =
     (if truthy d then
        (case get_id d of
           Inl e \<Rightarrow> (Inl e, w)
         | Inr v \<Rightarrow>
             if typeof v = ''number''
             then prepareTags_loop ds (tags @ [\<lparr>tag_id = v\<rparr>]) w
             else prepareTags_loop ds tags (w\<lparr>events := events w @ [Log_info]\<rparr>))
      else prepareTags_loop ds tags (w\<lparr>events := events w @ [Log_info]\<rparr>))"

definition prepareTags :: "jsval list \<Rightarrow> Tag list io" where
  "prepareTags tagsData = prepareTags_loop tagsData []"

text \<open>
  The entries the specification calls well-formed: present, with a numeric id. Written
  from the specification's words, to compare with the loop above.
\<close>

definition numeric_id :: "jsval \<Rightarrow> int option" where
  "numeric_id d = (case d of
       JObj kvs \<Rightarrow> (case map_of (rev kvs) ''id'' of Some (JNum n) \<Rightarrow> Some n | _ \<Rightarrow> None)
     | _ \<Rightarrow> None)"

definition well_formed :: "jsval \<Rightarrow> bool" where
  "well_formed d = (numeric_id d \<noteq> None)"

definition well_formed_tags :: "jsval list \<Rightarrow> Tag list" where
  "well_formed_tags ds = map (\<lambda>n. \<lparr>tag_id = JNum n\<rparr>) (List.map_filter numeric_id ds)"

section \<open>The store\<close>

text \<open>
  The calls of the object-relational layer the handlers use. Each call is in the trace,
  rejects when the environment says so (leaving the store as it was), and otherwise reads
  or writes the store as the open transaction sees it.
\<close>

definition search :: "env \<Rightarrow> string \<Rightarrow> Playground list option io" where
  "search en q w =
     (let w' = w\<lparr>events := events w @ [Ev_search q]\<rparr>
      in case search_result en q of Inl e \<Rightarrow> (Inl e, w') | Inr vs \<Rightarrow> (Inr vs, w'))"

text \<open>
  Modelled from the spec: \<open>Playground.create\<close> belongs to the model class, which is not
  among the sources. It "assigns a new id and a freshly generated slug; versionsCount
  initialized to 0"; the other fields are the ones the handler passes. A new row has no
  tag attached.
\<close>

definition new_row :: "env \<Rightarrow> body \<Rightarrow> jsval \<Rightarrow> Playground" where
  "new_row en b ext =
     \<lparr>pg_id = new_id en, slug = new_slug en, name = b_name b,
      description = b_description b, contents = the (b_contents b),
      author = b_author b, pixiVersion = b_pixiVersion b,
      isPublic = b_isPublic b, externalJs = ext, versionsCount = 0\<rparr>"

text \<open>
  Modelled from the spec: \<open>Playground.create(fields, { transaction: t })\<close> of the same
  model class stores the new row in the transaction and resolves to it.
\<close>

definition create :: "env \<Rightarrow> body \<Rightarrow> jsval \<Rightarrow> Playground io" where
  "create en b ext w =
     (let w' = w\<lparr>events := events w @ [Ev_create]\<rparr>
      in if create_rejects en then (Inl StoreError, w')
         else
           (let v = new_row en b ext
            in (Inr v,
                w'\<lparr>working := (working w')\<lparr>rows := (rows (working w'))(new_id en \<mapsto> v),
                                             links := (links (working w'))(new_id en := [])\<rparr>\<rparr>)))"

text \<open>\<open>Playground.findById(id, { transaction: t })\<close>; a missing id resolves to null.\<close>

definition findById :: "env \<Rightarrow> int option \<Rightarrow> Playground option io" where
  "findById en i w =
     (let w' = w\<lparr>events := events w @ [Ev_findById i]\<rparr>
      in if findById_rejects en then (Inl StoreError, w')
         else (Inr (case i of None \<Rightarrow> None | Some k \<Rightarrow> rows (working w') k), w'))"

text \<open>
  \<open>value.update({ name, description, contents, author, pixiVersion, isPublic, externalJs,
  versionsCount: value.versionsCount + 1 }, { transaction: t })\<close>: the listed fields are
  set on the instance and the row is saved; \<open>id\<close> and \<open>slug\<close> are not among them.
\<close>

definition updated_row :: "Playground \<Rightarrow> body \<Rightarrow> jsval \<Rightarrow> Playground" where
  "updated_row v b ext =
     v\<lparr>name := b_name b, description := b_description b,
       contents := the (b_contents b), author := b_author b,
       pixiVersion := b_pixiVersion b, isPublic := b_isPublic b,
       externalJs := ext, versionsCount := versionsCount v + 1\<rparr>"

definition update :: "env \<Rightarrow> Playground \<Rightarrow> body \<Rightarrow> jsval \<Rightarrow> Playground io" where
  "update en v b ext w =
     (let w' = w\<lparr>events := events w @ [Ev_update (pg_id v)]\<rparr>
      in if update_rejects en then (Inl StoreError, w')
         else
           (let v' = updated_row v b ext
            in (Inr v',
                w'\<lparr>working := (working w')\<lparr>rows := (rows (working w'))(pg_id v \<mapsto> v')\<rparr>\<rparr>)))"

text \<open>\<open>value.$set('tags', tags, { transaction: t })\<close>: the tags of the row become \<open>tags\<close>.\<close>

definition set_tags :: "env \<Rightarrow> Playground \<Rightarrow> Tag list \<Rightarrow> unit io" where
  "set_tags en v tags w =
     (let w' = w\<lparr>events := events w @ [Ev_set_tags (pg_id v) tags]\<rparr>
      in if set_rejects en then (Inl StoreError, w')
         else (Inr (),
               w'\<lparr>working := (working w')\<lparr>links := (links (working w'))(pg_id v := tags)\<rparr>\<rparr>))"

text \<open>
  \<open>db.transaction(callback)\<close>, the managed transaction of the object-relational layer
  (\<open>lib/db\<close> is not among the sources): the callback runs on the store as the
  transaction sees it; the transaction commits when the promise the callback returns
  resolves, and rolls back when it rejects. A store call that rejected has written
  nothing; what the calls before it wrote stays in the transaction.
\<close>

definition transaction :: "'a io \<Rightarrow> 'a io" where
  "transaction cb w =
     (case cb (w\<lparr>working := committed w\<rparr>) of
        (Inr v, w') \<Rightarrow> (Inr v, w'\<lparr>committed := working w', events := events w' @ [Commit]\<rparr>)
      | (Inl e, w') \<Rightarrow> (Inl e, w'\<lparr>working := committed w', events := events w' @ [Rollback]\<rparr>))"

text \<open>
  Modelled from the spec: \<open>purgeCacheForUrls\<close> is in \<open>lib/cloudflare\<close>, which is not
  among the sources. The request for the purge is issued and the call returns; a purge
  that fails "is logged and ignored". The handler drops what the call returns.
\<close>

definition purgeCacheForUrls :: "env \<Rightarrow> string list \<Rightarrow> unit io" where
  "purgeCacheForUrls en urls =
     seq (emit (Purge urls)) (if purge_fails en then emit Log_error else resolve ())"

definition purge_urls :: "string \<Rightarrow> string list" where
  "purge_urls s =
     [''https://pixiplayground.com/api/playground/'' @ s,
      ''https://www.pixiplayground.com/api/playground/'' @ s,
      ''http://pixiplayground.com/api/playground/'' @ s,
      ''http://www.pixiplayground.com/api/playground/'' @ s]"

section \<open>The handlers\<close>

text \<open>A request starts on the committed store with an empty trace.\<close>

definition run :: "unit io \<Rightarrow> db \<Rightarrow> (err + unit) \<times> world" where
  "run m d = m \<lparr>committed = d, working = d, events = []\<rparr>"

text \<open>\<open>req.body.tags || []\<close> and \<open>req.body.externalJs || []\<close>.\<close>

definition tagsData_of :: "body \<Rightarrow> jsval list" where
  "tagsData_of b = (case b_tags b of None \<Rightarrow> [] | Some ts \<Rightarrow> ts)"

definition externalJs_of :: "body \<Rightarrow> jsval" where
  "externalJs_of b = (if truthy (b_externalJs b) then b_externalJs b else JArr [])"

subsection \<open>GET /api/playgrounds\<close>

definition get_playgrounds :: "env \<Rightarrow> string option \<Rightarrow> unit io" where
  "get_playgrounds en q =
     (if falsy q then
        seq (emit Log_error) (seq (res_json en UNPROCESSABLE_ENTITY Msg) (emit Next))
      else
        catch_p
          (then_p (search en (the q))
             (\<lambda>values.
                seq (if (case values of None \<Rightarrow> True | Some vs \<Rightarrow> vs = [])
                     then seq (emit Log_info) (res_json en NOT_FOUND Msg)
                     else seq (emit Log_info) (res_json en OK (Items (the values))))
                    (emit Next)))
          (\<lambda>e. seq (emit Log_error)
                  (seq (res_json en INTERNAL_SERVER_ERROR Msg) (emit Next))))"

subsection \<open>POST /api/playground\<close>

definition post_invalid :: "body \<Rightarrow> bool" where
  "post_invalid b = (falsy (b_contents b) \<or> length (the (b_contents b)) > 16777214)"

definition post_playground :: "env \<Rightarrow> body \<Rightarrow> unit io" where
  "post_playground en b =
     (let tagsData = tagsData_of b; ext = externalJs_of b
      in if post_invalid b then
           seq (emit Log_error) (seq (res_json en UNPROCESSABLE_ENTITY Msg) (emit Next))
         else
           transaction
             (catch_p
                (then_p
                   (then_p (create en b ext)
                      (\<lambda>v. seq (emit Log_info)
                              (if tagsData \<noteq> [] then
                                 then_p (prepareTags tagsData)
                                   (\<lambda>tags. then_p (set_tags en v tags) (\<lambda>_. resolve v))
                               else resolve v)))
                   (\<lambda>v. seq (res_json en CREATED (Item v)) (emit Next)))
                (\<lambda>e. seq (emit Log_error)
                        (seq (res_json en INTERNAL_SERVER_ERROR Msg) (emit Next)))))"

subsection \<open>PUT /api/playground/:slug\<close>

definition put_invalid :: "put_req \<Rightarrow> bool" where
  "put_invalid r =
     (falsy (p_slug r) \<or> falsy (b_contents (p_body r)) \<or> length (the (p_slug r)) \<noteq> 21
      \<or> length (the (b_contents (p_body r))) > 16777214)"

text \<open>
  The first \<open>then\<close> after the update returns the row, or nothing on the branch of the
  mismatched slug; the second \<open>then\<close> receives whichever it was.
\<close>

definition put_playground :: "env \<Rightarrow> put_req \<Rightarrow> unit io" where
  "put_playground en r =
     (let b = p_body r; tagsData = tagsData_of b; ext = externalJs_of b
      in if put_invalid r then
           seq (emit Log_error) (seq (res_json en UNPROCESSABLE_ENTITY Msg) (emit Next))
         else
           transaction
             (then_p (findById en (b_id b))
                (\<lambda>found.
                   case found of
                     None \<Rightarrow> seq (emit Log_info) (seq (res_json en NOT_FOUND Msg) (emit Next))
                   | Some v0 \<Rightarrow>
                       catch_p
                         (then_p
                            (then_p (update en v0 b ext)
                               (\<lambda>v. if slug v \<noteq> the (p_slug r) then
                                       seq (emit Log_error)
                                         (seq (res_json en INTERNAL_SERVER_ERROR Msg)
                                            (seq (emit Next) (resolve None)))
                                     else
                                       seq (emit Log_info)
                                         (if tagsData \<noteq> [] then
                                            then_p (prepareTags tagsData)
                                              (\<lambda>tags. then_p (set_tags en v tags)
                                                         (\<lambda>_. resolve (Some v)))
                                          else resolve (Some v))))
                            (\<lambda>res.
                               seq (purgeCacheForUrls en (purge_urls (the (p_slug r))))
                                 (seq (res_json en OK
                                         (case res of None \<Rightarrow> No_body | Some v \<Rightarrow> Item v))
                                    (emit Next))))
                         (\<lambda>e. seq (emit Log_error)
                                 (seq (res_json en INTERNAL_SERVER_ERROR Msg) (emit Next))))))"

subsection \<open>GET /api/:id/:version of the legacy routes\<close>

text \<open>
  \<open>parseInt(version, 10)\<close>: leading white space is skipped, one sign is read, and the
  longest run of decimal digits that follows is the number; \<open>NaN\<close> (here \<open>None\<close>) when
  that run is empty. What follows the digits is ignored. The white space is the one among
  the characters of one byte: tab, line feed, vertical tab, form feed, carriage return,
  space and no-break space.
\<close>

definition is_space :: "char \<Rightarrow> bool" where
  "is_space c = (c \<in> set [CHR 0x09, CHR 0x0A, CHR 0x0B, CHR 0x0C, CHR 0x0D, CHR 0x20, CHR 0xA0])"

definition is_digit :: "char \<Rightarrow> bool" where
  "is_digit c = (c \<in> set ''0123456789'')"

definition digit_of :: "char \<Rightarrow> int" where
  "digit_of c = int (of_char c) - 48"

definition parseInt10 :: "string \<Rightarrow> int option" where
  "parseInt10 s =
     (let t = dropWhile is_space s;
          neg = (case t of c # u \<Rightarrow> c = CHR ''-'' | [] \<Rightarrow> False);
          u = (case t of c # u \<Rightarrow> if c = CHR ''-'' \<or> c = CHR ''+'' then u else t | [] \<Rightarrow> t);
          ds = takeWhile is_digit u;
          n = foldl (\<lambda>a c. 10 * a + digit_of c) 0 ds
      in if ds = [] then None else Some (if neg then - n else n))"

text \<open>
  \<open>data.getPlayground(id, version, callback)\<close> is called with the path parameter as it
  came, and calls back with (error, item, contents).
\<close>

definition get_version :: "env \<Rightarrow> string \<Rightarrow> string \<Rightarrow> unit io" where
  "get_version en i version =
     (let versionNum = parseInt10 version
      in if versionNum = None then
           seq (emit Log_error) (seq (res_json en UNPROCESSABLE_ENTITY Msg) (emit Next))
         else
           seq (emit (Ev_getPlayground i version))
             (case getPlayground_result en i version of
                (e, item, cont) \<Rightarrow>
                  seq (if truthy e then
                         seq (emit Log_error) (res_json en INTERNAL_SERVER_ERROR Msg)
                       else if \<not> truthy item then
                         seq (emit Log_info) (res_json en NOT_FOUND Msg)
                       else
                         seq (emit Log_debug) (res_json en OK (Legacy_item item cont)))
                      (emit Next)))"

section \<open>Reading a trace\<close>

text \<open>The log lines of the entries \<open>prepareTags\<close> skips, one for each.\<close>

definition skipped :: "jsval list \<Rightarrow> event list" where
  "skipped ds = replicate (length (filter (\<lambda>d. \<not> well_formed d) ds)) Log_info"

text \<open>What the purge call of the PUT handler leaves in the trace.\<close>

definition purge_events :: "env \<Rightarrow> string \<Rightarrow> event list" where
  "purge_events en s = Purge (purge_urls s) # (if purge_fails en then [Log_error] else [])"

text \<open>The store calls that look a row up, the purge calls, and the end of a transaction.\<close>

fun is_lookup :: "event \<Rightarrow> bool" where
  "is_lookup (Ev_findById i) = True"
| "is_lookup (Ev_search q) = True"
| "is_lookup e = False"

fun is_purge :: "event \<Rightarrow> bool" where
  "is_purge (Purge urls) = True"
| "is_purge e = False"

fun is_tx_end :: "event \<Rightarrow> bool" where
  "is_tx_end Commit = True"
| "is_tx_end Rollback = True"
| "is_tx_end e = False"

text \<open>An event without the URLs of a purge.\<close>

fun without_urls :: "event \<Rightarrow> event" where
  "without_urls (Purge urls) = Purge []"
| "without_urls e = e"

text \<open>The store after a row was created, and after a row was updated.\<close>

definition db_created :: "env \<Rightarrow> body \<Rightarrow> db \<Rightarrow> db" where
  "db_created en b d =
     d\<lparr>rows := (rows d)(new_id en \<mapsto> new_row en b (externalJs_of b)),
       links := (links d)(new_id en := [])\<rparr>"

definition db_updated :: "Playground \<Rightarrow> body \<Rightarrow> db \<Rightarrow> db" where
  "db_updated v0 b d = d\<lparr>rows := (rows d)(pg_id v0 \<mapsto> updated_row v0 b (externalJs_of b))\<rparr>"

definition codes :: "world \<Rightarrow> code list" where
  "codes w = map fst (responses (events w))"

section \<open>Sample requests\<close>

definition ex_slug :: string where
  "ex_slug = ''abcdefghijklmnopqrstu''"

definition ex_row :: Playground where
  "ex_row = \<lparr>pg_id = 1, slug = ex_slug, name = JStr ''demo'', description = JNull,
             contents = ''console.log(0)'', author = JStr ''a'', pixiVersion = JNull,
             isPublic = JBool True, externalJs = JArr [], versionsCount = 3\<rparr>"

definition ex_db :: db where
  "ex_db = \<lparr>rows = [1 \<mapsto> ex_row], links = (\<lambda>i. [])(1 := [\<lparr>tag_id = JNum 5\<rparr>])\<rparr>"

definition ex_env :: env where
  "ex_env = \<lparr>resend_throws = False, search_result = (\<lambda>q. Inr (Some [])),
             findById_rejects = False, create_rejects = False, update_rejects = False,
             set_rejects = False, new_id = 2, new_slug = ''uvwxyzuvwxyzuvwxyzuvw'',
             purge_fails = False,
             getPlayground_result = (\<lambda>i v. (JNull, JObj [], JStr ''x''))\<rparr>"

definition ex_tags :: "jsval list" where
  "ex_tags = [JObj [(''id'', JNum 7)], JObj [(''id'', JStr ''8'')], JObj [(''id'', JNum 9)]]"

definition ex_body :: body where
  "ex_body = \<lparr>b_id = Some 1, b_name = JStr ''demo'', b_description = JNull,
              b_contents = Some ''console.log(1)'', b_author = JStr ''a'',
              b_pixiVersion = JNull, b_isPublic = JBool True, b_tags = Some ex_tags,
              b_externalJs = JUndefined\<rparr>"

definition ex_put :: put_req where
  "ex_put = \<lparr>p_slug = Some ex_slug, p_body = ex_body\<rparr>"

text \<open>The same request under a slug of the right length that is not the row's.\<close>

definition ex_put_other_slug :: put_req where
  "ex_put_other_slug = \<lparr>p_slug = Some ''Xbcdefghijklmnopqrstu'', p_body = ex_body\<rparr>"

text \<open>The same request with \<open>tags: []\<close>.\<close>

definition ex_put_no_tags :: put_req where
  "ex_put_no_tags = \<lparr>p_slug = Some ex_slug, p_body = ex_body\<lparr>b_tags := Some []\<rparr>\<rparr>"

text \<open>The sample environment with a store that rejects the tag replacement.\<close>

definition ex_env_set_rejects :: env where
  "ex_env_set_rejects = ex_env\<lparr>set_rejects := True\<rparr>"

text \<open>The sample environment with a framework that throws on a second \<open>res.json\<close>.\<close>

definition ex_env_resend_throws :: env where
  "ex_env_resend_throws = ex_env\<lparr>resend_throws := True\<rparr>"

text \<open>
  The sample update under a third slug, under a slug that is too short, and for an id
  that is not in the store.
\<close>

definition ex_put_third_slug :: put_req where
  "ex_put_third_slug = \<lparr>p_slug = Some ''Ybcdefghijklmnopqrstu'', p_body = ex_body\<rparr>"

definition ex_put_short_slug :: put_req where
  "ex_put_short_slug = \<lparr>p_slug = Some ''abc'', p_body = ex_body\<rparr>"

definition ex_put_unknown_id :: put_req where
  "ex_put_unknown_id = \<lparr>p_slug = Some ex_slug, p_body = ex_body\<lparr>b_id := Some 9\<rparr>\<rparr>"

text \<open>Contents at the bound and one past it.\<close>

definition contents_max :: string where
  "contents_max = replicate 16777214 (CHR ''a'')"

definition contents_over :: string where
  "contents_over = replicate 16777215 (CHR ''a'')"

section \<open>Tag preparation computes the well-formed entries\<close>

lemma numeric_id_kept: "numeric_id d = Some n \<Longrightarrow> truthy d \<and> get_id d = Inr (JNum n)"
  by (auto simp: numeric_id_def split: jsval.splits option.splits)

lemma numeric_id_dropped:
  "numeric_id d = None \<Longrightarrow> truthy d \<Longrightarrow> \<exists>v. get_id d = Inr v \<and> typeof v \<noteq> ''number''"
  by (cases d) (auto simp: numeric_id_def split: jsval.splits option.splits)

lemma prepareTags_loop_eq:
  "prepareTags_loop ds tags w =
     (Inr (tags @ well_formed_tags ds), w\<lparr>events := events w @ skipped ds\<rparr>)"
proof (induction ds arbitrary: tags w)
  case Nil
  then show ?case by (simp add: well_formed_tags_def skipped_def)
next
  case (Cons d ds)
  show ?case
  proof (cases "numeric_id d")
    case None
    show ?thesis
    proof (cases "truthy d")
      case True
      with None obtain v where "get_id d = Inr v" "typeof v \<noteq> ''number''"
        using numeric_id_dropped by blast
      with True None show ?thesis
        by (simp add: Cons.IH well_formed_tags_def well_formed_def skipped_def
            replicate_append_same)
    next
      case False
      with None show ?thesis
        by (simp add: Cons.IH well_formed_tags_def well_formed_def skipped_def
            replicate_append_same)
    qed
  next
    case (Some n)
    with numeric_id_kept have "truthy d" "get_id d = Inr (JNum n)" by blast+
    with Some show ?thesis
      by (simp add: Cons.IH well_formed_tags_def well_formed_def skipped_def)
  qed
qed

lemma prepareTags_eq:
  "prepareTags ds w = (Inr (well_formed_tags ds), w\<lparr>events := events w @ skipped ds\<rparr>)"
  by (simp add: prepareTags_def prepareTags_loop_eq)

lemma length_well_formed_tags:
  "length (well_formed_tags ds) = length (filter well_formed ds)"
  by (induction ds) (auto simp: well_formed_tags_def well_formed_def)

section \<open>Traces\<close>

lemma responses_append: "responses (xs @ ys) = responses xs @ responses ys"
  by (induction xs rule: responses.induct) simp_all

lemma responses_replicate_log: "responses (replicate n Log_info) = []"
  by (induction n) simp_all

lemma responses_skipped: "responses (skipped ds) = []"
  by (simp add: skipped_def responses_replicate_log)

lemma responses_purge_events: "responses (purge_events en s) = []"
  by (simp add: purge_events_def)

lemma filter_lookup_skipped: "filter is_lookup (skipped ds) = []"
  by (simp add: skipped_def)

lemma filter_purge_skipped: "filter is_purge (skipped ds) = []"
  by (simp add: skipped_def)

lemma slug_updated_row: "slug (updated_row v b ext) = slug v"
  by (simp add: updated_row_def)

lemma pg_id_updated_row: "pg_id (updated_row v b ext) = pg_id v"
  by (simp add: updated_row_def)

lemma versionsCount_updated_row:
  "versionsCount (updated_row v b ext) = versionsCount v + 1"
  by (simp add: updated_row_def)

lemma versionsCount_new_row: "versionsCount (new_row en b ext) = 0"
  by (simp add: new_row_def)

lemma pg_id_new_row: "pg_id (new_row en b ext) = new_id en"
  by (simp add: new_row_def)

lemmas io_defs = run_def Let_def transaction_def then_p_def catch_p_def seq_def emit_def
  res_json_def resolve_def findById_def update_def set_tags_def create_def search_def
  purgeCacheForUrls_def prepareTags_eq responses_append responses_skipped
  slug_updated_row pg_id_updated_row

section \<open>The paths of the handlers\<close>

text \<open>
  Each lemma gives the whole outcome of a handler on one of its paths: what the promise
  settles to, the store, and the trace.
\<close>

subsection \<open>GET /api/playgrounds\<close>

lemma search_rejected:
  "falsy q \<Longrightarrow>
   run (get_playgrounds en q) d =
     (Inr (), \<lparr>committed = d, working = d,
               events = [Log_error, Res_json UNPROCESSABLE_ENTITY Msg, Next]\<rparr>)"
  by (simp add: get_playgrounds_def io_defs)

lemma search_nothing:
  "\<not> falsy q \<Longrightarrow> search_result en (the q) = Inr vs \<Longrightarrow>
   (case vs of None \<Rightarrow> True | Some xs \<Rightarrow> xs = []) \<Longrightarrow>
   run (get_playgrounds en q) d =
     (Inr (), \<lparr>committed = d, working = d,
               events = [Ev_search (the q), Log_info, Res_json NOT_FOUND Msg, Next]\<rparr>)"
  by (simp add: get_playgrounds_def io_defs)

lemma search_some:
  "\<not> falsy q \<Longrightarrow> search_result en (the q) = Inr (Some xs) \<Longrightarrow> xs \<noteq> [] \<Longrightarrow>
   run (get_playgrounds en q) d =
     (Inr (), \<lparr>committed = d, working = d,
               events = [Ev_search (the q), Log_info, Res_json OK (Items xs), Next]\<rparr>)"
  by (simp add: get_playgrounds_def io_defs)

lemma search_fails:
  "\<not> falsy q \<Longrightarrow> search_result en (the q) = Inl e \<Longrightarrow>
   run (get_playgrounds en q) d =
     (Inr (), \<lparr>committed = d, working = d,
               events = [Ev_search (the q), Log_error,
                         Res_json INTERNAL_SERVER_ERROR Msg, Next]\<rparr>)"
  by (simp add: get_playgrounds_def io_defs)

subsection \<open>POST /api/playground\<close>

lemma post_rejected:
  "post_invalid b \<Longrightarrow>
   run (post_playground en b) d =
     (Inr (), \<lparr>committed = d, working = d,
               events = [Log_error, Res_json UNPROCESSABLE_ENTITY Msg, Next]\<rparr>)"
  by (simp add: post_playground_def io_defs)

lemma post_create_fails:
  "\<not> post_invalid b \<Longrightarrow> create_rejects en \<Longrightarrow>
   run (post_playground en b) d =
     (Inr (), \<lparr>committed = d, working = d,
               events = [Ev_create, Log_error, Res_json INTERNAL_SERVER_ERROR Msg,
                         Next, Commit]\<rparr>)"
  by (simp add: post_playground_def io_defs)

lemma post_no_tags:
  "\<not> post_invalid b \<Longrightarrow> \<not> create_rejects en \<Longrightarrow> tagsData_of b = [] \<Longrightarrow>
   run (post_playground en b) d =
     (Inr (), \<lparr>committed = db_created en b d, working = db_created en b d,
               events = [Ev_create, Log_info,
                         Res_json CREATED (Item (new_row en b (externalJs_of b))),
                         Next, Commit]\<rparr>)"
  by (simp add: post_playground_def io_defs db_created_def)

lemma post_tags_fail:
  "\<not> post_invalid b \<Longrightarrow> \<not> create_rejects en \<Longrightarrow> tagsData_of b \<noteq> [] \<Longrightarrow>
   set_rejects en \<Longrightarrow>
   run (post_playground en b) d =
     (Inr (), \<lparr>committed = db_created en b d, working = db_created en b d,
               events = [Ev_create, Log_info] @ skipped (tagsData_of b)
                 @ [Ev_set_tags (new_id en) (well_formed_tags (tagsData_of b)), Log_error,
                    Res_json INTERNAL_SERVER_ERROR Msg, Next, Commit]\<rparr>)"
  by (simp add: post_playground_def io_defs db_created_def pg_id_new_row)

lemma post_tags_set:
  "\<not> post_invalid b \<Longrightarrow> \<not> create_rejects en \<Longrightarrow> tagsData_of b \<noteq> [] \<Longrightarrow>
   \<not> set_rejects en \<Longrightarrow>
   run (post_playground en b) d =
     (Inr (),
      \<lparr>committed = (db_created en b d)
           \<lparr>links := (links d)(new_id en := well_formed_tags (tagsData_of b))\<rparr>,
        working = (db_created en b d)
           \<lparr>links := (links d)(new_id en := well_formed_tags (tagsData_of b))\<rparr>,
        events = [Ev_create, Log_info] @ skipped (tagsData_of b)
                 @ [Ev_set_tags (new_id en) (well_formed_tags (tagsData_of b)),
                    Res_json CREATED (Item (new_row en b (externalJs_of b))),
                    Next, Commit]\<rparr>)"
  by (simp add: post_playground_def io_defs db_created_def pg_id_new_row)

subsection \<open>PUT /api/playground/:slug\<close>

lemma put_rejected:
  "put_invalid r \<Longrightarrow>
   run (put_playground en r) d =
     (Inr (), \<lparr>committed = d, working = d,
               events = [Log_error, Res_json UNPROCESSABLE_ENTITY Msg, Next]\<rparr>)"
  by (simp add: put_playground_def io_defs)

lemma put_lookup_fails:
  "\<not> put_invalid r \<Longrightarrow> findById_rejects en \<Longrightarrow>
   run (put_playground en r) d =
     (Inl StoreError, \<lparr>committed = d, working = d,
               events = [Ev_findById (b_id (p_body r)), Rollback]\<rparr>)"
  by (simp add: put_playground_def io_defs)

lemma put_not_found:
  "\<not> put_invalid r \<Longrightarrow> \<not> findById_rejects en \<Longrightarrow>
   (case b_id (p_body r) of None \<Rightarrow> None | Some k \<Rightarrow> rows d k) = None \<Longrightarrow>
   run (put_playground en r) d =
     (Inr (), \<lparr>committed = d, working = d,
               events = [Ev_findById (b_id (p_body r)), Log_info, Res_json NOT_FOUND Msg,
                         Next, Commit]\<rparr>)"
  by (cases "b_id (p_body r)") (simp_all add: put_playground_def io_defs)

lemma put_update_fails:
  "\<not> put_invalid r \<Longrightarrow> \<not> findById_rejects en \<Longrightarrow>
   b_id (p_body r) = Some k \<Longrightarrow> rows d k = Some v0 \<Longrightarrow> update_rejects en \<Longrightarrow>
   run (put_playground en r) d =
     (Inr (), \<lparr>committed = d, working = d,
               events = [Ev_findById (Some k), Ev_update (pg_id v0), Log_error,
                         Res_json INTERNAL_SERVER_ERROR Msg, Next, Commit]\<rparr>)"
  by (simp add: put_playground_def io_defs)

lemma put_mismatch_ignored:
  "\<not> put_invalid r \<Longrightarrow> \<not> findById_rejects en \<Longrightarrow>
   b_id (p_body r) = Some k \<Longrightarrow> rows d k = Some v0 \<Longrightarrow> \<not> update_rejects en \<Longrightarrow>
   slug v0 \<noteq> the (p_slug r) \<Longrightarrow> \<not> resend_throws en \<Longrightarrow>
   run (put_playground en r) d =
     (Inr (),
      \<lparr>committed = db_updated v0 (p_body r) d, working = db_updated v0 (p_body r) d,
        events = [Ev_findById (Some k), Ev_update (pg_id v0), Log_error,
                  Res_json INTERNAL_SERVER_ERROR Msg, Next]
                 @ purge_events en (the (p_slug r))
                 @ [Res_json OK No_body, Next, Commit]\<rparr>)"
  by (simp add: put_playground_def io_defs purge_events_def db_updated_def)

lemma put_mismatch_thrown:
  "\<not> put_invalid r \<Longrightarrow> \<not> findById_rejects en \<Longrightarrow>
   b_id (p_body r) = Some k \<Longrightarrow> rows d k = Some v0 \<Longrightarrow> \<not> update_rejects en \<Longrightarrow>
   slug v0 \<noteq> the (p_slug r) \<Longrightarrow> resend_throws en \<Longrightarrow>
   run (put_playground en r) d =
     (Inl HeadersSent,
      \<lparr>committed = d, working = d,
        events = [Ev_findById (Some k), Ev_update (pg_id v0), Log_error,
                  Res_json INTERNAL_SERVER_ERROR Msg, Next]
                 @ purge_events en (the (p_slug r))
                 @ [Res_json OK No_body, Log_error, Res_json INTERNAL_SERVER_ERROR Msg,
                    Rollback]\<rparr>)"
  by (simp add: put_playground_def io_defs purge_events_def)

lemma put_no_tags:
  "\<not> put_invalid r \<Longrightarrow> \<not> findById_rejects en \<Longrightarrow>
   b_id (p_body r) = Some k \<Longrightarrow> rows d k = Some v0 \<Longrightarrow> \<not> update_rejects en \<Longrightarrow>
   slug v0 = the (p_slug r) \<Longrightarrow> tagsData_of (p_body r) = [] \<Longrightarrow>
   run (put_playground en r) d =
     (Inr (),
      \<lparr>committed = db_updated v0 (p_body r) d, working = db_updated v0 (p_body r) d,
        events = [Ev_findById (Some k), Ev_update (pg_id v0), Log_info]
                 @ purge_events en (the (p_slug r))
                 @ [Res_json OK (Item (updated_row v0 (p_body r) (externalJs_of (p_body r)))),
                    Next, Commit]\<rparr>)"
  by (simp add: put_playground_def io_defs purge_events_def db_updated_def)

lemma put_tags_fail:
  "\<not> put_invalid r \<Longrightarrow> \<not> findById_rejects en \<Longrightarrow>
   b_id (p_body r) = Some k \<Longrightarrow> rows d k = Some v0 \<Longrightarrow> \<not> update_rejects en \<Longrightarrow>
   slug v0 = the (p_slug r) \<Longrightarrow> tagsData_of (p_body r) \<noteq> [] \<Longrightarrow> set_rejects en \<Longrightarrow>
   run (put_playground en r) d =
     (Inr (),
      \<lparr>committed = db_updated v0 (p_body r) d, working = db_updated v0 (p_body r) d,
        events = [Ev_findById (Some k), Ev_update (pg_id v0), Log_info]
                 @ skipped (tagsData_of (p_body r))
                 @ [Ev_set_tags (pg_id v0) (well_formed_tags (tagsData_of (p_body r))),
                    Log_error, Res_json INTERNAL_SERVER_ERROR Msg, Next, Commit]\<rparr>)"
  by (simp add: put_playground_def io_defs db_updated_def)

lemma put_tags_set:
  "\<not> put_invalid r \<Longrightarrow> \<not> findById_rejects en \<Longrightarrow>
   b_id (p_body r) = Some k \<Longrightarrow> rows d k = Some v0 \<Longrightarrow> \<not> update_rejects en \<Longrightarrow>
   slug v0 = the (p_slug r) \<Longrightarrow> tagsData_of (p_body r) \<noteq> [] \<Longrightarrow> \<not> set_rejects en \<Longrightarrow>
   run (put_playground en r) d =
     (Inr (),
      \<lparr>committed = (db_updated v0 (p_body r) d)
           \<lparr>links := (links d)(pg_id v0 := well_formed_tags (tagsData_of (p_body r)))\<rparr>,
        working = (db_updated v0 (p_body r) d)
           \<lparr>links := (links d)(pg_id v0 := well_formed_tags (tagsData_of (p_body r)))\<rparr>,
        events = [Ev_findById (Some k), Ev_update (pg_id v0), Log_info]
                 @ skipped (tagsData_of (p_body r))
                 @ [Ev_set_tags (pg_id v0) (well_formed_tags (tagsData_of (p_body r)))]
                 @ purge_events en (the (p_slug r))
                 @ [Res_json OK (Item (updated_row v0 (p_body r) (externalJs_of (p_body r)))),
                    Next, Commit]\<rparr>)"
  by (simp add: put_playground_def io_defs purge_events_def db_updated_def)

subsection \<open>GET /api/:id/:version\<close>

lemma version_rejected:
  "parseInt10 version = None \<Longrightarrow>
   run (get_version en i version) d =
     (Inr (), \<lparr>committed = d, working = d,
               events = [Log_error, Res_json UNPROCESSABLE_ENTITY Msg, Next]\<rparr>)"
  by (simp add: get_version_def io_defs)

lemma version_accepted:
  "parseInt10 version \<noteq> None \<Longrightarrow> getPlayground_result en i version = (e, item, cont) \<Longrightarrow>
   run (get_version en i version) d =
     (Inr (), \<lparr>committed = d, working = d,
               events = [Ev_getPlayground i version,
                         if truthy e then Log_error
                         else if \<not> truthy item then Log_info else Log_debug,
                         Res_json (if truthy e then INTERNAL_SERVER_ERROR
                                   else if \<not> truthy item then NOT_FOUND else OK)
                                  (if truthy e then Msg
                                   else if \<not> truthy item then Msg else Legacy_item item cont),
                         Next]\<rparr>)"
  by (simp add: get_version_def io_defs)

section \<open>Case analysis of a request\<close>

lemma put_cases:
  obtains
    (rejected) "put_invalid r"
  | (lookup_fails) "\<not> put_invalid r" "findById_rejects en"
  | (not_found) "\<not> put_invalid r" "\<not> findById_rejects en"
      "(case b_id (p_body r) of None \<Rightarrow> None | Some k \<Rightarrow> rows d k) = None"
  | (update_fails) k v0 where "\<not> put_invalid r" "\<not> findById_rejects en"
      "b_id (p_body r) = Some k" "rows d k = Some v0" "update_rejects en"
  | (mismatch_ignored) k v0 where "\<not> put_invalid r" "\<not> findById_rejects en"
      "b_id (p_body r) = Some k" "rows d k = Some v0" "\<not> update_rejects en"
      "slug v0 \<noteq> the (p_slug r)" "\<not> resend_throws en"
  | (mismatch_thrown) k v0 where "\<not> put_invalid r" "\<not> findById_rejects en"
      "b_id (p_body r) = Some k" "rows d k = Some v0" "\<not> update_rejects en"
      "slug v0 \<noteq> the (p_slug r)" "resend_throws en"
  | (no_tags) k v0 where "\<not> put_invalid r" "\<not> findById_rejects en"
      "b_id (p_body r) = Some k" "rows d k = Some v0" "\<not> update_rejects en"
      "slug v0 = the (p_slug r)" "tagsData_of (p_body r) = []"
  | (tags_fail) k v0 where "\<not> put_invalid r" "\<not> findById_rejects en"
      "b_id (p_body r) = Some k" "rows d k = Some v0" "\<not> update_rejects en"
      "slug v0 = the (p_slug r)" "tagsData_of (p_body r) \<noteq> []" "set_rejects en"
  | (tags_set) k v0 where "\<not> put_invalid r" "\<not> findById_rejects en"
      "b_id (p_body r) = Some k" "rows d k = Some v0" "\<not> update_rejects en"
      "slug v0 = the (p_slug r)" "tagsData_of (p_body r) \<noteq> []" "\<not> set_rejects en"
proof (cases "b_id (p_body r)")
  case None
  then show ?thesis using rejected lookup_fails not_found by (cases "put_invalid r"; cases "findById_rejects en") simp_all
next
  case (Some k)
  show ?thesis
  proof (cases "rows d k")
    case None
    with Some show ?thesis using rejected lookup_fails not_found
      by (cases "put_invalid r"; cases "findById_rejects en") simp_all
  next
    case (Some v0)
    with \<open>b_id (p_body r) = Some k\<close> show ?thesis
      using rejected lookup_fails update_fails mismatch_ignored mismatch_thrown no_tags
        tags_fail tags_set
      by blast
  qed
qed

lemma post_cases:
  obtains
    (rejected) "post_invalid b"
  | (create_fails) "\<not> post_invalid b" "create_rejects en"
  | (no_tags) "\<not> post_invalid b" "\<not> create_rejects en" "tagsData_of b = []"
  | (tags_fail) "\<not> post_invalid b" "\<not> create_rejects en" "tagsData_of b \<noteq> []" "set_rejects en"
  | (tags_set) "\<not> post_invalid b" "\<not> create_rejects en" "tagsData_of b \<noteq> []" "\<not> set_rejects en"
  by auto

section \<open>What a success tells\<close>

lemmas trace_simps = delivered_def responses_append responses_skipped responses_purge_events

lemma post_created:
  assumes "delivered (snd (run (post_playground en b) d)) = Some (CREATED, p)"
  shows "p = Item (new_row en b (externalJs_of b))
         \<and> rows (committed (snd (run (post_playground en b) d))) (new_id en)
             = Some (new_row en b (externalJs_of b))
         \<and> links (committed (snd (run (post_playground en b) d))) (new_id en)
             = well_formed_tags (tagsData_of b)"
proof (cases rule: post_cases [where b=b and en=en])
  case rejected
  with assms show ?thesis by (simp add: post_rejected trace_simps)
next
  case create_fails
  with assms show ?thesis by (simp add: post_create_fails trace_simps)
next
  case no_tags
  with assms show ?thesis
    by (simp add: post_no_tags trace_simps db_created_def well_formed_tags_def)
next
  case tags_fail
  with assms show ?thesis by (simp add: post_tags_fail trace_simps)
next
  case tags_set
  with assms show ?thesis by (simp add: post_tags_set trace_simps db_created_def)
qed

lemma put_ok:
  assumes "delivered (snd (run (put_playground en r) d)) = Some (OK, p)"
  shows "\<exists>k v0. b_id (p_body r) = Some k \<and> rows d k = Some v0
           \<and> \<not> put_invalid r \<and> slug v0 = the (p_slug r)
           \<and> p = Item (updated_row v0 (p_body r) (externalJs_of (p_body r)))
           \<and> rows (committed (snd (run (put_playground en r) d))) (pg_id v0)
               = Some (updated_row v0 (p_body r) (externalJs_of (p_body r)))
           \<and> (tagsData_of (p_body r) \<noteq> [] \<longrightarrow>
                links (committed (snd (run (put_playground en r) d))) (pg_id v0)
                  = well_formed_tags (tagsData_of (p_body r)))
           \<and> (tagsData_of (p_body r) = [] \<longrightarrow>
                links (committed (snd (run (put_playground en r) d))) = links d)"
proof (cases rule: put_cases [where r=r and en=en and d=d])
  case rejected
  with assms show ?thesis by (simp add: put_rejected trace_simps)
next
  case lookup_fails
  with assms show ?thesis by (simp add: put_lookup_fails trace_simps)
next
  case not_found
  with assms show ?thesis by (simp add: put_not_found trace_simps)
next
  case (update_fails k v0)
  with assms show ?thesis by (simp add: put_update_fails trace_simps)
next
  case (mismatch_ignored k v0)
  with assms show ?thesis by (simp add: put_mismatch_ignored trace_simps)
next
  case (mismatch_thrown k v0)
  with assms show ?thesis by (simp add: put_mismatch_thrown trace_simps)
next
  case (no_tags k v0)
  with assms show ?thesis by (simp add: put_no_tags trace_simps db_updated_def)
next
  case (tags_fail k v0)
  with assms show ?thesis by (simp add: put_tags_fail trace_simps)
next
  case (tags_set k v0)
  with assms show ?thesis by (simp add: put_tags_set trace_simps db_updated_def)
qed

section \<open>The sample requests, run\<close>

lemmas ex_defs = ex_env_def ex_db_def ex_row_def ex_body_def ex_put_def ex_slug_def ex_tags_def
  ex_put_other_slug_def ex_put_no_tags_def put_invalid_def post_invalid_def tagsData_of_def
  externalJs_of_def

lemma ex_post_delivered:
  "delivered (snd (run (post_playground ex_env ex_body) ex_db))
     = Some (CREATED, Item (new_row ex_env ex_body (externalJs_of ex_body)))"
  by (subst post_tags_set) (simp_all add: trace_simps ex_defs)

lemma ex_put_delivered:
  "delivered (snd (run (put_playground ex_env ex_put) ex_db))
     = Some (OK, Item (updated_row ex_row (p_body ex_put) (externalJs_of (p_body ex_put))))"
  by (subst put_tags_set [where k = 1 and ?v0.0 = ex_row]) (simp_all add: trace_simps ex_defs)

lemma ex_put_no_tags_delivered:
  "delivered (snd (run (put_playground ex_env ex_put_no_tags) ex_db))
     = Some (OK, Item (updated_row ex_row (p_body ex_put_no_tags) (externalJs_of (p_body ex_put_no_tags))))"
  by (subst put_no_tags [where k = 1 and ?v0.0 = ex_row]) (simp_all add: trace_simps ex_defs)

section \<open>A request that passed validation\<close>

lemma post_valid_trace:
  assumes "\<not> post_invalid b"
  shows "hd (events (snd (run (post_playground en b) d))) = Ev_create
         \<and> UNPROCESSABLE_ENTITY \<notin> set (codes (snd (run (post_playground en b) d)))"
proof (cases rule: post_cases [where b = b and en = en])
  case rejected
  with assms show ?thesis by simp
next
  case create_fails
  then show ?thesis by (simp add: post_create_fails codes_def)
next
  case no_tags
  then show ?thesis by (simp add: post_no_tags codes_def)
next
  case tags_fail
  then show ?thesis by (simp add: post_tags_fail codes_def trace_simps)
next
  case tags_set
  then show ?thesis by (simp add: post_tags_set codes_def trace_simps)
qed

lemma put_valid_trace:
  assumes "\<not> put_invalid r"
  shows "hd (events (snd (run (put_playground en r) d))) = Ev_findById (b_id (p_body r))
         \<and> UNPROCESSABLE_ENTITY \<notin> set (codes (snd (run (put_playground en r) d)))"
proof (cases rule: put_cases [where r = r and en = en and d = d])
  case rejected
  with assms show ?thesis by simp
next
  case lookup_fails
  then show ?thesis by (simp add: put_lookup_fails codes_def)
next
  case not_found
  then show ?thesis by (simp add: put_not_found codes_def)
next
  case (update_fails k v0)
  then show ?thesis by (simp add: put_update_fails codes_def)
next
  case (mismatch_ignored k v0)
  then show ?thesis by (simp add: put_mismatch_ignored codes_def trace_simps)
next
  case (mismatch_thrown k v0)
  then show ?thesis by (simp add: put_mismatch_thrown codes_def trace_simps)
next
  case (no_tags k v0)
  then show ?thesis by (simp add: put_no_tags codes_def trace_simps)
next
  case (tags_fail k v0)
  then show ?thesis by (simp add: put_tags_fail codes_def trace_simps)
next
  case (tags_set k v0)
  then show ?thesis by (simp add: put_tags_set codes_def trace_simps)
qed

lemma length_contents_max: "length contents_max = 16777214"
  by (simp add: contents_max_def)

lemma length_contents_over: "length contents_over = 16777215"
  by (simp add: contents_over_def)

section \<open>Writes that are committed with an error response\<close>

lemma db_updated_changes:
  "rows d (pg_id v0) = Some v0 \<Longrightarrow> db_updated v0 b d \<noteq> d"
proof
  assume r: "rows d (pg_id v0) = Some v0" and e: "db_updated v0 b d = d"
  have "rows (db_updated v0 b d) (pg_id v0) = Some (updated_row v0 b (externalJs_of b))"
    by (simp add: db_updated_def)
  with r e have "updated_row v0 b (externalJs_of b) = v0" by simp
  then have "versionsCount (updated_row v0 b (externalJs_of b)) = versionsCount v0" by simp
  then show False by (simp add: versionsCount_updated_row)
qed

lemma db_created_changes:
  "rows d (new_id en) = None \<Longrightarrow> db_created en b d \<noteq> d"
proof
  assume r: "rows d (new_id en) = None" and e: "db_created en b d = d"
  have "rows (db_created en b d) (new_id en) \<noteq> None"
    by (simp add: db_created_def)
  with r e show False by simp
qed

lemma put_tag_failure_outcome:
  assumes "\<not> put_invalid r" "\<not> findById_rejects en" "b_id (p_body r) = Some k"
    "rows d k = Some v0" "pg_id v0 = k" "\<not> update_rejects en" "slug v0 = the (p_slug r)"
    "tagsData_of (p_body r) \<noteq> []" "set_rejects en"
  shows "delivered (snd (run (put_playground en r) d)) = Some (INTERNAL_SERVER_ERROR, Msg)
      \<and> last (events (snd (run (put_playground en r) d))) = Commit
      \<and> rows (committed (snd (run (put_playground en r) d))) k
          = Some (updated_row v0 (p_body r) (externalJs_of (p_body r)))
      \<and> links (committed (snd (run (put_playground en r) d))) = links d
      \<and> committed (snd (run (put_playground en r) d)) \<noteq> d"
  using assms db_updated_changes [of d v0 "p_body r"]
  by (simp add: put_tags_fail [where k = k and ?v0.0 = v0] trace_simps)
     (auto simp: db_updated_def)

lemma put_mismatch_outcome:
  assumes "\<not> put_invalid r" "\<not> findById_rejects en" "b_id (p_body r) = Some k"
    "rows d k = Some v0" "pg_id v0 = k" "\<not> update_rejects en" "slug v0 \<noteq> the (p_slug r)"
    "\<not> resend_throws en"
  shows "delivered (snd (run (put_playground en r) d)) = Some (INTERNAL_SERVER_ERROR, Msg)
      \<and> last (events (snd (run (put_playground en r) d))) = Commit
      \<and> rows (committed (snd (run (put_playground en r) d))) k
          = Some (updated_row v0 (p_body r) (externalJs_of (p_body r)))
      \<and> committed (snd (run (put_playground en r) d)) \<noteq> d"
  using assms db_updated_changes [of d v0 "p_body r"]
  by (simp add: put_mismatch_ignored [where k = k and ?v0.0 = v0] trace_simps)
     (auto simp: db_updated_def)

lemma post_tag_failure_outcome:
  assumes "\<not> post_invalid b" "\<not> create_rejects en" "rows d (new_id en) = None"
    "tagsData_of b \<noteq> []" "set_rejects en"
  shows "delivered (snd (run (post_playground en b) d)) = Some (INTERNAL_SERVER_ERROR, Msg)
      \<and> last (events (snd (run (post_playground en b) d))) = Commit
      \<and> rows (committed (snd (run (post_playground en b) d))) (new_id en)
          = Some (new_row en b (externalJs_of b))
      \<and> links (committed (snd (run (post_playground en b) d))) (new_id en) = []
      \<and> committed (snd (run (post_playground en b) d)) \<noteq> d"
  using assms db_created_changes [of d en b]
  by (simp add: post_tags_fail trace_simps) (auto simp: db_created_def)

section \<open>Lookups and purges in the trace of an update\<close>

lemma filter_lookup_purge_events: "filter is_lookup (purge_events en s) = []"
  by (simp add: purge_events_def)

lemma filter_purge_purge_events: "filter is_purge (purge_events en s) = [Purge (purge_urls s)]"
  by (simp add: purge_events_def)

lemma takeWhile_skipped:
  "takeWhile (\<lambda>e. \<not> is_tx_end e) (skipped ds @ es) = skipped ds @ takeWhile (\<lambda>e. \<not> is_tx_end e) es"
  by (rule takeWhile_append2) (auto simp: skipped_def)

lemma takeWhile_purge_events:
  "takeWhile (\<lambda>e. \<not> is_tx_end e) (purge_events en s @ es)
     = purge_events en s @ takeWhile (\<lambda>e. \<not> is_tx_end e) es"
  by (simp add: purge_events_def)

lemmas filter_simps = filter_lookup_skipped filter_purge_skipped filter_lookup_purge_events
  filter_purge_purge_events takeWhile_skipped takeWhile_purge_events

lemma put_lookup_events:
  assumes "\<not> put_invalid r"
  shows "filter is_lookup (events (snd (run (put_playground en r) d)))
           = [Ev_findById (b_id (p_body r))]"
proof (cases rule: put_cases [where r = r and en = en and d = d])
  case rejected
  with assms show ?thesis by simp
next
  case lookup_fails
  then show ?thesis by (simp add: put_lookup_fails)
next
  case not_found
  then show ?thesis by (simp add: put_not_found)
next
  case (update_fails k v0)
  then show ?thesis by (simp add: put_update_fails)
next
  case (mismatch_ignored k v0)
  then show ?thesis by (simp add: put_mismatch_ignored filter_simps)
next
  case (mismatch_thrown k v0)
  then show ?thesis by (simp add: put_mismatch_thrown filter_simps)
next
  case (no_tags k v0)
  then show ?thesis by (simp add: put_no_tags filter_simps)
next
  case (tags_fail k v0)
  then show ?thesis by (simp add: put_tags_fail filter_simps)
next
  case (tags_set k v0)
  then show ?thesis by (simp add: put_tags_set filter_simps)
qed

lemma put_slug_only_compared:
  assumes v: "\<not> put_invalid r" and v': "\<not> put_invalid r'" and b: "p_body r' = p_body r"
    and s: "\<forall>v0. (case b_id (p_body r) of None \<Rightarrow> None | Some k \<Rightarrow> rows d k) = Some v0
              \<longrightarrow> (slug v0 = the (p_slug r)) = (slug v0 = the (p_slug r'))"
  shows "committed (snd (run (put_playground en r') d))
           = committed (snd (run (put_playground en r) d))
         \<and> codes (snd (run (put_playground en r') d))
           = codes (snd (run (put_playground en r) d))
         \<and> fst (run (put_playground en r') d) = fst (run (put_playground en r) d)"
proof (cases rule: put_cases [where r = r and en = en and d = d])
  case rejected
  with v show ?thesis by simp
next
  case lookup_fails
  with v' show ?thesis by (simp add: put_lookup_fails codes_def)
next
  case not_found
  with v' b show ?thesis by (simp add: put_not_found codes_def)
next
  case (update_fails k v0)
  with v' b show ?thesis
    by (simp add: put_update_fails [where k = k and ?v0.0 = v0] codes_def)
next
  case (mismatch_ignored k v0)
  with s have "slug v0 \<noteq> the (p_slug r')" by simp
  with mismatch_ignored v' b show ?thesis
    by (simp add: put_mismatch_ignored [where k = k and ?v0.0 = v0] codes_def trace_simps)
next
  case (mismatch_thrown k v0)
  with s have "slug v0 \<noteq> the (p_slug r')" by simp
  with mismatch_thrown v' b show ?thesis
    by (simp add: put_mismatch_thrown [where k = k and ?v0.0 = v0] codes_def trace_simps)
next
  case (no_tags k v0)
  with s have "slug v0 = the (p_slug r')" by simp
  with no_tags v' b show ?thesis
    by (simp add: put_no_tags [where k = k and ?v0.0 = v0] codes_def trace_simps)
next
  case (tags_fail k v0)
  with s have "slug v0 = the (p_slug r')" by simp
  with tags_fail v' b show ?thesis
    by (simp add: put_tags_fail [where k = k and ?v0.0 = v0] codes_def trace_simps)
next
  case (tags_set k v0)
  with s have "slug v0 = the (p_slug r')" by simp
  with tags_set v' b show ?thesis
    by (simp add: put_tags_set [where k = k and ?v0.0 = v0] codes_def trace_simps)
qed

lemma put_purges:
  assumes "\<not> put_invalid r" "\<not> findById_rejects en" "b_id (p_body r) = Some k"
    "rows d k = Some v0" "\<not> update_rejects en"
    "slug v0 \<noteq> the (p_slug r) \<or> tagsData_of (p_body r) = [] \<or> \<not> set_rejects en"
  shows "filter is_purge (events (snd (run (put_playground en r) d)))
           = [Purge (purge_urls (the (p_slug r)))]
         \<and> filter is_purge
             (takeWhile (\<lambda>e. \<not> is_tx_end e) (events (snd (run (put_playground en r) d))))
           = [Purge (purge_urls (the (p_slug r)))]"
proof (cases rule: put_cases [where r = r and en = en and d = d])
  case rejected
  with assms show ?thesis by simp
next
  case lookup_fails
  with assms show ?thesis by simp
next
  case not_found
  with assms show ?thesis by simp
next
  case (update_fails k v0)
  with assms show ?thesis by simp
next
  case (mismatch_ignored k v0)
  then show ?thesis by (simp add: put_mismatch_ignored filter_simps)
next
  case (mismatch_thrown k v0)
  then show ?thesis by (simp add: put_mismatch_thrown filter_simps)
next
  case (no_tags k v0)
  then show ?thesis by (simp add: put_no_tags filter_simps)
next
  case (tags_fail k' v0')
  with assms show ?thesis by simp
next
  case (tags_set k v0)
  then show ?thesis by (simp add: put_tags_set filter_simps)
qed

lemma put_no_purge:
  assumes "put_invalid r \<or> findById_rejects en
    \<or> (case b_id (p_body r) of None \<Rightarrow> None | Some k \<Rightarrow> rows d k) = None
    \<or> update_rejects en
    \<or> (\<exists>k v0. b_id (p_body r) = Some k \<and> rows d k = Some v0 \<and> slug v0 = the (p_slug r)
          \<and> tagsData_of (p_body r) \<noteq> [] \<and> set_rejects en)"
  shows "filter is_purge (events (snd (run (put_playground en r) d))) = []"
proof (cases rule: put_cases [where r = r and en = en and d = d])
  case rejected
  then show ?thesis by (simp add: put_rejected)
next
  case lookup_fails
  then show ?thesis by (simp add: put_lookup_fails)
next
  case not_found
  then show ?thesis by (simp add: put_not_found)
next
  case (update_fails k v0)
  then show ?thesis by (simp add: put_update_fails)
next
  case (mismatch_ignored k v0)
  with assms show ?thesis by auto
next
  case (mismatch_thrown k v0)
  with assms show ?thesis by auto
next
  case (no_tags k v0)
  with assms show ?thesis by auto
next
  case (tags_fail k v0)
  then show ?thesis by (simp add: put_tags_fail filter_simps)
next
  case (tags_set k v0)
  with assms show ?thesis by auto
qed

lemma put_purge_failure_ignored:
  "fst (run (put_playground (en\<lparr>purge_fails := x\<rparr>) r) d) = fst (run (put_playground en r) d)
   \<and> codes (snd (run (put_playground (en\<lparr>purge_fails := x\<rparr>) r) d))
       = codes (snd (run (put_playground en r) d))
   \<and> committed (snd (run (put_playground (en\<lparr>purge_fails := x\<rparr>) r) d))
       = committed (snd (run (put_playground en r) d))"
proof (cases rule: put_cases [where r = r and en = en and d = d])
  case rejected
  then show ?thesis by (simp add: put_rejected)
next
  case lookup_fails
  then show ?thesis by (simp add: put_lookup_fails)
next
  case not_found
  then show ?thesis by (simp add: put_not_found)
next
  case (update_fails k v0)
  then show ?thesis by (simp add: put_update_fails [where k = k and ?v0.0 = v0])
next
  case (mismatch_ignored k v0)
  then show ?thesis
    by (simp add: put_mismatch_ignored [where k = k and ?v0.0 = v0] codes_def trace_simps)
next
  case (mismatch_thrown k v0)
  then show ?thesis
    by (simp add: put_mismatch_thrown [where k = k and ?v0.0 = v0] codes_def trace_simps)
next
  case (no_tags k v0)
  then show ?thesis
    by (simp add: put_no_tags [where k = k and ?v0.0 = v0] codes_def trace_simps)
next
  case (tags_fail k v0)
  then show ?thesis
    by (simp add: put_tags_fail [where k = k and ?v0.0 = v0] codes_def trace_simps)
next
  case (tags_set k v0)
  then show ?thesis
    by (simp add: put_tags_set [where k = k and ?v0.0 = v0] codes_def trace_simps)
qed

section \<open>The slug in the trace of an update\<close>

lemma map_without_urls_skipped: "map without_urls (skipped ds) = skipped ds"
  by (simp add: skipped_def)

lemma map_without_urls_purge_events:
  "map without_urls (purge_events en s) = Purge [] # (if purge_fails en then [Log_error] else [])"
  by (simp add: purge_events_def)

lemmas strip_simps = map_without_urls_skipped map_without_urls_purge_events

lemma put_update_before_compare:
  assumes "\<not> put_invalid r" "\<not> findById_rejects en" "b_id (p_body r) = Some k"
    "rows d k = Some v0"
  shows "take 2 (events (snd (run (put_playground en r) d)))
           = [Ev_findById (Some k), Ev_update (pg_id v0)]
         \<and> (\<not> update_rejects en \<and> slug v0 \<noteq> the (p_slug r) \<longrightarrow>
              take 5 (events (snd (run (put_playground en r) d)))
                = [Ev_findById (Some k), Ev_update (pg_id v0), Log_error,
                   Res_json INTERNAL_SERVER_ERROR Msg, Next])
         \<and> (\<not> update_rejects en \<and> slug v0 = the (p_slug r) \<longrightarrow>
              take 3 (events (snd (run (put_playground en r) d)))
                = [Ev_findById (Some k), Ev_update (pg_id v0), Log_info]
              \<and> (tagsData_of (p_body r) = [] \<or> \<not> set_rejects en \<longrightarrow>
                   delivered (snd (run (put_playground en r) d))
                     = Some (OK, Item (updated_row v0 (p_body r) (externalJs_of (p_body r))))))"
proof (cases rule: put_cases [where r = r and en = en and d = d])
  case rejected
  with assms show ?thesis by simp
next
  case lookup_fails
  with assms show ?thesis by simp
next
  case not_found
  with assms show ?thesis by simp
next
  case (update_fails k' v0')
  with assms show ?thesis by (simp add: put_update_fails [where k = k and ?v0.0 = v0])
next
  case (mismatch_ignored k' v0')
  with assms show ?thesis by (simp add: put_mismatch_ignored [where k = k and ?v0.0 = v0])
next
  case (mismatch_thrown k' v0')
  with assms show ?thesis by (simp add: put_mismatch_thrown [where k = k and ?v0.0 = v0])
next
  case (no_tags k' v0')
  with assms show ?thesis
    by (simp add: put_no_tags [where k = k and ?v0.0 = v0] trace_simps)
next
  case (tags_fail k' v0')
  with assms show ?thesis
    by (simp add: put_tags_fail [where k = k and ?v0.0 = v0] trace_simps)
next
  case (tags_set k' v0')
  with assms show ?thesis
    by (simp add: put_tags_set [where k = k and ?v0.0 = v0] trace_simps)
qed

lemma put_slug_trace:
  assumes v: "\<not> put_invalid r" and v': "\<not> put_invalid r'" and b: "p_body r' = p_body r"
    and s: "\<forall>v0. (case b_id (p_body r) of None \<Rightarrow> None | Some k \<Rightarrow> rows d k) = Some v0
              \<longrightarrow> (slug v0 = the (p_slug r)) = (slug v0 = the (p_slug r'))"
  shows "map without_urls (events (snd (run (put_playground en r') d)))
           = map without_urls (events (snd (run (put_playground en r) d)))"
proof (cases rule: put_cases [where r = r and en = en and d = d])
  case rejected
  with v show ?thesis by simp
next
  case lookup_fails
  with v' b show ?thesis by (simp add: put_lookup_fails)
next
  case not_found
  with v' b show ?thesis by (simp add: put_not_found)
next
  case (update_fails k v0)
  with v' b show ?thesis
    by (simp add: put_update_fails [where k = k and ?v0.0 = v0])
next
  case (mismatch_ignored k v0)
  with s have "slug v0 \<noteq> the (p_slug r')" by simp
  with mismatch_ignored v' b show ?thesis
    by (simp add: put_mismatch_ignored [where k = k and ?v0.0 = v0] strip_simps)
next
  case (mismatch_thrown k v0)
  with s have "slug v0 \<noteq> the (p_slug r')" by simp
  with mismatch_thrown v' b show ?thesis
    by (simp add: put_mismatch_thrown [where k = k and ?v0.0 = v0] strip_simps)
next
  case (no_tags k v0)
  with s have "slug v0 = the (p_slug r')" by simp
  with no_tags v' b show ?thesis
    by (simp add: put_no_tags [where k = k and ?v0.0 = v0] strip_simps)
next
  case (tags_fail k v0)
  with s have "slug v0 = the (p_slug r')" by simp
  with tags_fail v' b show ?thesis
    by (simp add: put_tags_fail [where k = k and ?v0.0 = v0] strip_simps)
next
  case (tags_set k v0)
  with s have "slug v0 = the (p_slug r')" by simp
  with tags_set v' b show ?thesis
    by (simp add: put_tags_set [where k = k and ?v0.0 = v0] strip_simps)
qed

lemma put_purge_urls_of_slug:
  "set (filter is_purge (events (snd (run (put_playground en r) d))))
     \<subseteq> {Purge (purge_urls (the (p_slug r)))}"
proof (cases rule: put_cases [where r = r and en = en and d = d])
  case rejected
  then show ?thesis by (simp add: put_rejected)
next
  case lookup_fails
  then show ?thesis by (simp add: put_lookup_fails)
next
  case not_found
  then show ?thesis by (simp add: put_not_found)
next
  case (update_fails k v0)
  then show ?thesis by (simp add: put_update_fails)
next
  case (mismatch_ignored k v0)
  then show ?thesis by (simp add: put_mismatch_ignored filter_simps)
next
  case (mismatch_thrown k v0)
  then show ?thesis by (simp add: put_mismatch_thrown filter_simps)
next
  case (no_tags k v0)
  then show ?thesis by (simp add: put_no_tags filter_simps)
next
  case (tags_fail k v0)
  then show ?thesis by (simp add: put_tags_fail filter_simps)
next
  case (tags_set k v0)
  then show ?thesis by (simp add: put_tags_set filter_simps)
qed

section \<open>Tag preparation drops the malformed entries\<close>

lemma well_formed_test:
  "well_formed d = (truthy d \<and> (\<exists>v. get_id d = Inr v \<and> typeof v = ''number''))"
proof (cases "numeric_id d")
  case None
  then show ?thesis
    using numeric_id_dropped [of d] by (auto simp: well_formed_def)
next
  case (Some n)
  then show ?thesis
    using numeric_id_kept [of d n] by (simp add: well_formed_def)
qed

text \<open>
  C6. For every list of tag entries, \<open>prepareTags\<close> returns (it never raises) exactly
  the tags of the well-formed entries, in their order, and logs one line for each entry
  it skips; the number of tags is the number of well-formed entries. An entry is
  well-formed exactly when it passes the test of the loop: it is truthy and the
  \<open>typeof\<close> of its \<open>id\<close> is \<open>number\<close>.
\<close>

theorem prepareTags_keeps_well_formed:
  "prepareTags ds w = (Inr (well_formed_tags ds), w\<lparr>events := events w @ skipped ds\<rparr>)
   \<and> length (well_formed_tags ds) = length (filter well_formed ds)
   \<and> well_formed d = (truthy d \<and> (\<exists>v. get_id d = Inr v \<and> typeof v = ''number''))"
  using prepareTags_eq length_well_formed_tags well_formed_test by blast

text \<open>
  The list \<open>[{id: 7}, {id: "8"}, {id: 9}]\<close> has two well-formed entries and one
  malformed entry, and yields the two tags 7 and 9.
\<close>

theorem prepareTags_two_of_three:
  "fst (prepareTags ex_tags \<lparr>committed = ex_db, working = ex_db, events = []\<rparr>)
     = Inr [\<lparr>tag_id = JNum 7\<rparr>, \<lparr>tag_id = JNum 9\<rparr>]
   \<and> events (snd (prepareTags ex_tags \<lparr>committed = ex_db, working = ex_db, events = []\<rparr>))
     = [Log_info]
   \<and> length ex_tags = 3
   \<and> length (filter well_formed ex_tags) = 2"
  using prepareTags_keeps_well_formed
    [of ex_tags "\<lparr>committed = ex_db, working = ex_db, events = []\<rparr>"]
  by (simp add: ex_tags_def well_formed_tags_def numeric_id_def well_formed_def skipped_def)

section \<open>The search\<close>

text \<open>
  C7. A GET /api/playgrounds request whose \<open>q\<close> is empty or missing is answered 422
  and the trace holds no call of the store; a request with a non-empty \<open>q\<close> whose search
  resolves to no rows is answered 404.
\<close>

theorem search_query_checked:
  "(falsy q \<longrightarrow>
      run (get_playgrounds en q) d =
        (Inr (), \<lparr>committed = d, working = d,
                  events = [Log_error, Res_json UNPROCESSABLE_ENTITY Msg, Next]\<rparr>))
   \<and> (\<not> falsy q \<and> search_result en (the q) = Inr (Some []) \<longrightarrow>
      run (get_playgrounds en q) d =
        (Inr (), \<lparr>committed = d, working = d,
                  events = [Ev_search (the q), Log_info, Res_json NOT_FOUND Msg, Next]\<rparr>))
   \<and> status UNPROCESSABLE_ENTITY = 422 \<and> status NOT_FOUND = 404"
  using search_rejected [of q en d] search_nothing [of q en "Some []" d] by simp

theorem search_query_checked_sample:
  "run (get_playgrounds ex_env (Some [])) ex_db =
     (Inr (), \<lparr>committed = ex_db, working = ex_db,
               events = [Log_error, Res_json UNPROCESSABLE_ENTITY Msg, Next]\<rparr>)
   \<and> run (get_playgrounds ex_env None) ex_db =
     (Inr (), \<lparr>committed = ex_db, working = ex_db,
               events = [Log_error, Res_json UNPROCESSABLE_ENTITY Msg, Next]\<rparr>)
   \<and> run (get_playgrounds ex_env (Some ''pixi'')) ex_db =
     (Inr (), \<lparr>committed = ex_db, working = ex_db,
               events = [Ev_search ''pixi'', Log_info, Res_json NOT_FOUND Msg, Next]\<rparr>)"
  using search_query_checked [of "Some []" ex_env ex_db]
    search_query_checked [of None ex_env ex_db]
    search_query_checked [of "Some ''pixi''" ex_env ex_db]
  by (simp add: ex_env_def)

section \<open>The version counter\<close>

text \<open>
  C3. A creation that is answered 201 returns the stored new row, whose
  \<open>versionsCount\<close> is 0; an update that is answered 200 returns the stored row, whose
  \<open>versionsCount\<close> is the one the row had before the update plus one.
\<close>

theorem versionsCount_zero_then_plus_one:
  "(delivered (snd (run (post_playground en b) d)) = Some (CREATED, p) \<longrightarrow>
      (\<exists>v. p = Item v \<and> versionsCount v = 0
         \<and> rows (committed (snd (run (post_playground en b) d))) (pg_id v) = Some v))
   \<and> (delivered (snd (run (put_playground en r) d)) = Some (OK, p') \<longrightarrow>
      (\<exists>k v0 v. b_id (p_body r) = Some k \<and> rows d k = Some v0 \<and> p' = Item v
         \<and> versionsCount v = versionsCount v0 + 1
         \<and> rows (committed (snd (run (put_playground en r) d))) (pg_id v0) = Some v))"
proof (intro conjI impI)
  assume "delivered (snd (run (post_playground en b) d)) = Some (CREATED, p)"
  from post_created [OF this]
  show "\<exists>v. p = Item v \<and> versionsCount v = 0
         \<and> rows (committed (snd (run (post_playground en b) d))) (pg_id v) = Some v"
    by (simp add: versionsCount_new_row pg_id_new_row)
next
  assume "delivered (snd (run (put_playground en r) d)) = Some (OK, p')"
  from put_ok [OF this]
  show "\<exists>k v0 v. b_id (p_body r) = Some k \<and> rows d k = Some v0 \<and> p' = Item v
         \<and> versionsCount v = versionsCount v0 + 1
         \<and> rows (committed (snd (run (put_playground en r) d))) (pg_id v0) = Some v"
    by (auto simp: versionsCount_updated_row)
qed

text \<open>
  The sample creation returns a row with \<open>versionsCount\<close> 0; the sample update of row
  1, which stood at 3, returns and stores it at 4.
\<close>

theorem versionsCount_sample:
  "(\<exists>v. delivered (snd (run (post_playground ex_env ex_body) ex_db)) = Some (CREATED, Item v)
        \<and> versionsCount v = 0
        \<and> rows (committed (snd (run (post_playground ex_env ex_body) ex_db))) (pg_id v) = Some v)
   \<and> (\<exists>v. delivered (snd (run (put_playground ex_env ex_put) ex_db)) = Some (OK, Item v)
        \<and> versionsCount v = versionsCount ex_row + 1
        \<and> rows (committed (snd (run (put_playground ex_env ex_put) ex_db))) 1 = Some v)
   \<and> rows ex_db 1 = Some ex_row"
proof -
  have r: "rows ex_db 1 = Some ex_row" "b_id (p_body ex_put) = Some 1" "pg_id ex_row = 1"
    by (simp_all add: ex_defs)
  from versionsCount_zero_then_plus_one
    [of ex_env ex_body ex_db "Item (new_row ex_env ex_body (externalJs_of ex_body))"
        ex_put "Item (updated_row ex_row (p_body ex_put) (externalJs_of (p_body ex_put)))"]
    ex_post_delivered ex_put_delivered r
  show ?thesis by auto
qed

section \<open>Tag replacement\<close>

text \<open>
  An update with \<open>tags: []\<close> of a row that has tag 5 attached is answered 200 and leaves
  tag 5 attached, where the well-formed subset of the supplied list is empty.
\<close>

theorem put_empty_tags_keeps_tags:
  "b_tags (p_body ex_put_no_tags) = Some []
   \<and> well_formed_tags [] = []
   \<and> links ex_db 1 = [\<lparr>tag_id = JNum 5\<rparr>]
   \<and> delivered (snd (run (put_playground ex_env ex_put_no_tags) ex_db))
       = Some (OK, Item (updated_row ex_row (p_body ex_put_no_tags) (JArr [])))
   \<and> links (committed (snd (run (put_playground ex_env ex_put_no_tags) ex_db))) 1
       = [\<lparr>tag_id = JNum 5\<rparr>]"
  by (subst (1 2) put_no_tags [where k = 1 and ?v0.0 = ex_row])
     (simp_all add: trace_simps ex_defs well_formed_tags_def db_updated_def)

text \<open>
  C4, amended. After a creation that is answered 201 the tags of the new row are exactly
  the well-formed entries of the supplied list. After an update that is answered 200 the
  tags of the row are exactly the well-formed entries of the supplied list when that list
  is not empty; when it is empty or missing, the tags of every row are the ones from
  before the update.
\<close>

theorem tags_replaced_unless_empty:
  "(delivered (snd (run (post_playground en b) d)) = Some (CREATED, p) \<longrightarrow>
      links (committed (snd (run (post_playground en b) d))) (new_id en)
        = well_formed_tags (tagsData_of b))
   \<and> (delivered (snd (run (put_playground en r) d)) = Some (OK, p') \<longrightarrow>
      (\<exists>k v0. b_id (p_body r) = Some k \<and> rows d k = Some v0
         \<and> (tagsData_of (p_body r) \<noteq> [] \<longrightarrow>
              links (committed (snd (run (put_playground en r) d))) (pg_id v0)
                = well_formed_tags (tagsData_of (p_body r)))
         \<and> (tagsData_of (p_body r) = [] \<longrightarrow>
              links (committed (snd (run (put_playground en r) d))) = links d)))"
proof (intro conjI impI)
  assume "delivered (snd (run (post_playground en b) d)) = Some (CREATED, p)"
  from post_created [OF this]
  show "links (committed (snd (run (post_playground en b) d))) (new_id en)
        = well_formed_tags (tagsData_of b)"
    by simp
next
  assume "delivered (snd (run (put_playground en r) d)) = Some (OK, p')"
  from put_ok [OF this]
  show "\<exists>k v0. b_id (p_body r) = Some k \<and> rows d k = Some v0
         \<and> (tagsData_of (p_body r) \<noteq> [] \<longrightarrow>
              links (committed (snd (run (put_playground en r) d))) (pg_id v0)
                = well_formed_tags (tagsData_of (p_body r)))
         \<and> (tagsData_of (p_body r) = [] \<longrightarrow>
              links (committed (snd (run (put_playground en r) d))) = links d)"
    by blast
qed

text \<open>
  The sample update replaces tag 5 by the tags 7 and 9; the same update with an empty
  list leaves tag 5; the sample creation attaches 7 and 9 to the new row 2.
\<close>

theorem tags_replaced_sample:
  "links ex_db 1 = [\<lparr>tag_id = JNum 5\<rparr>]
   \<and> links (committed (snd (run (put_playground ex_env ex_put) ex_db))) 1
       = [\<lparr>tag_id = JNum 7\<rparr>, \<lparr>tag_id = JNum 9\<rparr>]
   \<and> links (committed (snd (run (put_playground ex_env ex_put_no_tags) ex_db))) 1
       = [\<lparr>tag_id = JNum 5\<rparr>]
   \<and> links (committed (snd (run (post_playground ex_env ex_body) ex_db))) 2
       = [\<lparr>tag_id = JNum 7\<rparr>, \<lparr>tag_id = JNum 9\<rparr>]"
proof -
  have r: "rows ex_db 1 = Some ex_row" "b_id (p_body ex_put) = Some 1" "pg_id ex_row = 1"
    "b_id (p_body ex_put_no_tags) = Some 1" "new_id ex_env = 2"
    "links ex_db 1 = [\<lparr>tag_id = JNum 5\<rparr>]"
    "tagsData_of (p_body ex_put_no_tags) = []"
    "tagsData_of (p_body ex_put) = ex_tags" "tagsData_of ex_body = ex_tags"
    "well_formed_tags ex_tags = [\<lparr>tag_id = JNum 7\<rparr>, \<lparr>tag_id = JNum 9\<rparr>]"
    by (simp_all add: ex_defs well_formed_tags_def numeric_id_def)
  from tags_replaced_unless_empty
    [of ex_env ex_body ex_db "Item (new_row ex_env ex_body (externalJs_of ex_body))"
        ex_put "Item (updated_row ex_row (p_body ex_put) (externalJs_of (p_body ex_put)))"]
    tags_replaced_unless_empty
    [of ex_env ex_body ex_db "Item (new_row ex_env ex_body (externalJs_of ex_body))"
        ex_put_no_tags "Item (updated_row ex_row (p_body ex_put_no_tags) (externalJs_of (p_body ex_put_no_tags)))"]
    ex_post_delivered ex_put_delivered ex_put_no_tags_delivered r
  show ?thesis by (auto simp: ex_tags_def)
qed

section \<open>The slug of an update\<close>

text \<open>
  C1. When a PUT request passed validation, its row was found by id, the update
  resolved and the slug of the row is not the slug of the URL, the caller is answered 500,
  and is not answered 200, whether or not a second \<open>res.json\<close> throws.
\<close>

theorem put_slug_mismatch_delivers_500:
  "\<not> put_invalid r \<Longrightarrow> \<not> findById_rejects en \<Longrightarrow>
   b_id (p_body r) = Some k \<Longrightarrow> rows d k = Some v0 \<Longrightarrow> \<not> update_rejects en \<Longrightarrow>
   slug v0 \<noteq> the (p_slug r) \<Longrightarrow>
   delivered (snd (run (put_playground en r) d)) = Some (INTERNAL_SERVER_ERROR, Msg)
   \<and> status INTERNAL_SERVER_ERROR = 500
   \<and> delivered (snd (run (put_playground en r) d)) \<noteq> Some (OK, p)"
  by (cases "resend_throws en")
     (simp_all add: put_mismatch_ignored put_mismatch_thrown trace_simps)

text \<open>
  The sample update of row 1 under another slug of 21 characters is answered 500, under
  both behaviours of the framework.
\<close>

theorem put_slug_mismatch_delivers_500_sample:
  "\<not> put_invalid ex_put_other_slug
   \<and> rows ex_db 1 = Some ex_row
   \<and> slug ex_row \<noteq> the (p_slug ex_put_other_slug)
   \<and> delivered (snd (run (put_playground ex_env ex_put_other_slug) ex_db))
       = Some (INTERNAL_SERVER_ERROR, Msg)
   \<and> delivered (snd (run (put_playground ex_env ex_put_other_slug) ex_db))
       \<noteq> Some (OK, No_body)
   \<and> delivered (snd (run (put_playground ex_env_resend_throws ex_put_other_slug) ex_db))
       = Some (INTERNAL_SERVER_ERROR, Msg)
   \<and> delivered (snd (run (put_playground ex_env_resend_throws ex_put_other_slug) ex_db))
       \<noteq> Some (OK, No_body)"
proof -
  have h: "\<not> put_invalid ex_put_other_slug" "\<not> findById_rejects ex_env"
    "b_id (p_body ex_put_other_slug) = Some 1" "rows ex_db 1 = Some ex_row"
    "\<not> update_rejects ex_env" "slug ex_row \<noteq> the (p_slug ex_put_other_slug)"
    by (simp_all add: ex_defs)
  have t: "\<not> findById_rejects ex_env_resend_throws" "\<not> update_rejects ex_env_resend_throws"
    by (simp_all add: ex_defs ex_env_resend_throws_def)
  from put_slug_mismatch_delivers_500 [OF h, of No_body]
    put_slug_mismatch_delivers_500 [OF h(1) t(1) h(3) h(4) t(2) h(6), of No_body] h
  show ?thesis by simp
qed

text \<open>
  After the 500 the chain goes on: the branch of the mismatched slug returns nothing
  instead of rejecting, so the next \<open>then\<close> purges the cache and calls \<open>res.json\<close>
  with 200 and no body, on a response that was already sent.
\<close>

lemma put_slug_mismatch_answers_500_then_200:
  "\<not> put_invalid r \<Longrightarrow> \<not> findById_rejects en \<Longrightarrow>
   b_id (p_body r) = Some k \<Longrightarrow> rows d k = Some v0 \<Longrightarrow> \<not> update_rejects en \<Longrightarrow>
   slug v0 \<noteq> the (p_slug r) \<Longrightarrow>
   take 2 (responses (events (snd (run (put_playground en r) d))))
     = [(INTERNAL_SERVER_ERROR, Msg), (OK, No_body)]"
  by (cases "resend_throws en")
     (simp_all add: put_mismatch_ignored put_mismatch_thrown trace_simps)

text \<open>
  The sample update of row 1 under another slug: the whole trace, where a second
  \<open>res.json\<close> does not throw.
\<close>

lemma put_other_slug_trace:
  "\<not> put_invalid ex_put_other_slug
   \<and> rows ex_db 1 = Some ex_row
   \<and> slug ex_row \<noteq> the (p_slug ex_put_other_slug)
   \<and> take 2 (responses (events (snd (run (put_playground ex_env ex_put_other_slug) ex_db))))
       = [(INTERNAL_SERVER_ERROR, Msg), (OK, No_body)]
   \<and> events (snd (run (put_playground ex_env ex_put_other_slug) ex_db))
       = [Ev_findById (Some 1), Ev_update 1, Log_error, Res_json INTERNAL_SERVER_ERROR Msg,
          Next, Purge (purge_urls ''Xbcdefghijklmnopqrstu''), Res_json OK No_body, Next, Commit]"
proof -
  have h: "\<not> put_invalid ex_put_other_slug" "\<not> findById_rejects ex_env"
    "b_id (p_body ex_put_other_slug) = Some 1" "rows ex_db 1 = Some ex_row"
    "\<not> update_rejects ex_env" "slug ex_row \<noteq> the (p_slug ex_put_other_slug)"
    "\<not> resend_throws ex_env"
    by (simp_all add: ex_defs)
  from put_slug_mismatch_answers_500_then_200 [OF h(1-6)] put_mismatch_ignored [OF h] h
  show ?thesis by (simp add: purge_events_def ex_defs)
qed

section \<open>Atomicity of a write\<close>

text \<open>
  C2. A write that fails after its first store call is committed all the same: the
  callback of the transaction catches the rejection and resolves. An update whose tag
  replacement rejects is answered 500, and the transaction commits the changed row with
  the tags as they were; an update under a mismatched slug is answered 500 and, where a
  second \<open>res.json\<close> does not throw, commits the changed row; a creation whose tag
  replacement rejects is answered 500 and commits the new row without tags.
\<close>

theorem failed_write_is_committed:
  "(\<not> put_invalid r \<and> \<not> findById_rejects en \<and> b_id (p_body r) = Some k \<and> rows d k = Some v0
      \<and> pg_id v0 = k \<and> \<not> update_rejects en \<and> slug v0 = the (p_slug r)
      \<and> tagsData_of (p_body r) \<noteq> [] \<and> set_rejects en \<longrightarrow>
      delivered (snd (run (put_playground en r) d)) = Some (INTERNAL_SERVER_ERROR, Msg)
      \<and> last (events (snd (run (put_playground en r) d))) = Commit
      \<and> rows (committed (snd (run (put_playground en r) d))) k
          = Some (updated_row v0 (p_body r) (externalJs_of (p_body r)))
      \<and> links (committed (snd (run (put_playground en r) d))) = links d
      \<and> committed (snd (run (put_playground en r) d)) \<noteq> d)
   \<and> (\<not> put_invalid r \<and> \<not> findById_rejects en \<and> b_id (p_body r) = Some k \<and> rows d k = Some v0
      \<and> pg_id v0 = k \<and> \<not> update_rejects en \<and> slug v0 \<noteq> the (p_slug r)
      \<and> \<not> resend_throws en \<longrightarrow>
      delivered (snd (run (put_playground en r) d)) = Some (INTERNAL_SERVER_ERROR, Msg)
      \<and> last (events (snd (run (put_playground en r) d))) = Commit
      \<and> rows (committed (snd (run (put_playground en r) d))) k
          = Some (updated_row v0 (p_body r) (externalJs_of (p_body r)))
      \<and> committed (snd (run (put_playground en r) d)) \<noteq> d)
   \<and> (\<not> post_invalid b \<and> \<not> create_rejects en \<and> rows d (new_id en) = None
      \<and> tagsData_of b \<noteq> [] \<and> set_rejects en \<longrightarrow>
      delivered (snd (run (post_playground en b) d)) = Some (INTERNAL_SERVER_ERROR, Msg)
      \<and> last (events (snd (run (post_playground en b) d))) = Commit
      \<and> rows (committed (snd (run (post_playground en b) d))) (new_id en)
          = Some (new_row en b (externalJs_of b))
      \<and> links (committed (snd (run (post_playground en b) d))) (new_id en) = []
      \<and> committed (snd (run (post_playground en b) d)) \<noteq> d)"
  using put_tag_failure_outcome [of r en k d v0] put_mismatch_outcome [of r en k d v0]
    post_tag_failure_outcome [of b en d]
  by blast

text \<open>
  The sample update with a store that rejects the tag replacement: the answer is 500, and
  row 1 is stored at \<open>versionsCount\<close> 4 with tag 5 still attached. The same for the
  sample update under another slug, and for the sample creation.
\<close>

theorem failed_write_sample:
  "delivered (snd (run (put_playground ex_env_set_rejects ex_put) ex_db))
     = Some (INTERNAL_SERVER_ERROR, Msg)
   \<and> rows ex_db 1 = Some ex_row
   \<and> versionsCount ex_row = 3
   \<and> map_option versionsCount
       (rows (committed (snd (run (put_playground ex_env_set_rejects ex_put) ex_db))) 1)
       = Some 4
   \<and> links (committed (snd (run (put_playground ex_env_set_rejects ex_put) ex_db))) 1
       = [\<lparr>tag_id = JNum 5\<rparr>]
   \<and> delivered (snd (run (put_playground ex_env ex_put_other_slug) ex_db))
     = Some (INTERNAL_SERVER_ERROR, Msg)
   \<and> map_option versionsCount
       (rows (committed (snd (run (put_playground ex_env ex_put_other_slug) ex_db))) 1)
       = Some 4
   \<and> delivered (snd (run (post_playground ex_env_set_rejects ex_body) ex_db))
     = Some (INTERNAL_SERVER_ERROR, Msg)
   \<and> rows ex_db 2 = None
   \<and> map_option versionsCount
       (rows (committed (snd (run (post_playground ex_env_set_rejects ex_body) ex_db))) 2)
       = Some 0"
proof -
  have h: "\<not> put_invalid ex_put" "\<not> findById_rejects ex_env_set_rejects"
    "b_id (p_body ex_put) = Some 1" "rows ex_db 1 = Some ex_row" "pg_id ex_row = 1"
    "\<not> update_rejects ex_env_set_rejects" "slug ex_row = the (p_slug ex_put)"
    "tagsData_of (p_body ex_put) \<noteq> []" "set_rejects ex_env_set_rejects"
    "\<not> post_invalid ex_body" "\<not> create_rejects ex_env_set_rejects"
    "rows ex_db (new_id ex_env_set_rejects) = None" "tagsData_of ex_body \<noteq> []"
    "new_id ex_env_set_rejects = 2" "rows ex_db 2 = None"
    "links ex_db 1 = [\<lparr>tag_id = JNum 5\<rparr>]" "versionsCount ex_row = 3"
    by (simp_all add: ex_defs ex_env_set_rejects_def)
  have m: "\<not> put_invalid ex_put_other_slug" "\<not> findById_rejects ex_env"
    "b_id (p_body ex_put_other_slug) = Some 1" "\<not> update_rejects ex_env"
    "slug ex_row \<noteq> the (p_slug ex_put_other_slug)" "\<not> resend_throws ex_env"
    by (simp_all add: ex_defs)
  from failed_write_is_committed [of ex_put ex_env_set_rejects 1 ex_db ex_row ex_body]
    failed_write_is_committed [of ex_put_other_slug ex_env 1 ex_db ex_row ex_body] h m
  show ?thesis
    by (simp add: versionsCount_updated_row versionsCount_new_row)
qed

section \<open>The bound on the contents\<close>

text \<open>
  C5. On create and on update, contents of length 16,777,214 pass the validation (on
  update, with a slug of 21 characters): the first event of the request is the store call
  and no response of the request is a 422. Contents of length 16,777,215 are answered 422
  and the request ends there, with no store call.
\<close>

theorem contents_length_bound:
  "(b_contents b = Some c \<and> length c = 16777214 \<longrightarrow>
      \<not> post_invalid b
      \<and> hd (events (snd (run (post_playground en b) d))) = Ev_create
      \<and> UNPROCESSABLE_ENTITY \<notin> set (codes (snd (run (post_playground en b) d))))
   \<and> (b_contents b = Some c \<and> length c = 16777215 \<longrightarrow>
      run (post_playground en b) d =
        (Inr (), \<lparr>committed = d, working = d,
                  events = [Log_error, Res_json UNPROCESSABLE_ENTITY Msg, Next]\<rparr>))
   \<and> (b_contents (p_body r) = Some c \<and> length c = 16777214
        \<and> p_slug r = Some s \<and> length s = 21 \<longrightarrow>
      \<not> put_invalid r
      \<and> hd (events (snd (run (put_playground en r) d))) = Ev_findById (b_id (p_body r))
      \<and> UNPROCESSABLE_ENTITY \<notin> set (codes (snd (run (put_playground en r) d))))
   \<and> (b_contents (p_body r) = Some c \<and> length c = 16777215 \<longrightarrow>
      run (put_playground en r) d =
        (Inr (), \<lparr>committed = d, working = d,
                  events = [Log_error, Res_json UNPROCESSABLE_ENTITY Msg, Next]\<rparr>))
   \<and> status UNPROCESSABLE_ENTITY = 422"
proof (intro conjI impI)
  assume a: "b_contents b = Some c \<and> length c = 16777214"
  then have v: "\<not> post_invalid b" by (auto simp: post_invalid_def)
  then show "\<not> post_invalid b" .
  from post_valid_trace [OF v]
  show "hd (events (snd (run (post_playground en b) d))) = Ev_create"
    and "UNPROCESSABLE_ENTITY \<notin> set (codes (snd (run (post_playground en b) d)))"
    by simp_all
next
  assume "b_contents b = Some c \<and> length c = 16777215"
  then have "post_invalid b" by (simp add: post_invalid_def)
  then show "run (post_playground en b) d =
        (Inr (), \<lparr>committed = d, working = d,
                  events = [Log_error, Res_json UNPROCESSABLE_ENTITY Msg, Next]\<rparr>)"
    by (rule post_rejected)
next
  assume a: "b_contents (p_body r) = Some c \<and> length c = 16777214
        \<and> p_slug r = Some s \<and> length s = 21"
  then have v: "\<not> put_invalid r" by (auto simp: put_invalid_def)
  then show "\<not> put_invalid r" .
  from put_valid_trace [OF v]
  show "hd (events (snd (run (put_playground en r) d))) = Ev_findById (b_id (p_body r))"
    and "UNPROCESSABLE_ENTITY \<notin> set (codes (snd (run (put_playground en r) d)))"
    by simp_all
next
  assume "b_contents (p_body r) = Some c \<and> length c = 16777215"
  then have "put_invalid r" by (simp add: put_invalid_def)
  then show "run (put_playground en r) d =
        (Inr (), \<lparr>committed = d, working = d,
                  events = [Log_error, Res_json UNPROCESSABLE_ENTITY Msg, Next]\<rparr>)"
    by (rule put_rejected)
next
  show "status UNPROCESSABLE_ENTITY = 422" by simp
qed

text \<open>The sample requests with contents of 16,777,214 and of 16,777,215 characters.\<close>

theorem contents_length_bound_sample:
  "length contents_max = 16777214
   \<and> \<not> post_invalid (ex_body\<lparr>b_contents := Some contents_max\<rparr>)
   \<and> hd (events (snd (run (post_playground ex_env (ex_body\<lparr>b_contents := Some contents_max\<rparr>)) ex_db)))
       = Ev_create
   \<and> \<not> put_invalid (ex_put\<lparr>p_body := ex_body\<lparr>b_contents := Some contents_max\<rparr>\<rparr>)
   \<and> hd (events (snd (run (put_playground ex_env
           (ex_put\<lparr>p_body := ex_body\<lparr>b_contents := Some contents_max\<rparr>\<rparr>)) ex_db)))
       = Ev_findById (Some 1)
   \<and> length contents_over = 16777215
   \<and> events (snd (run (post_playground ex_env (ex_body\<lparr>b_contents := Some contents_over\<rparr>)) ex_db))
       = [Log_error, Res_json UNPROCESSABLE_ENTITY Msg, Next]
   \<and> events (snd (run (put_playground ex_env
           (ex_put\<lparr>p_body := ex_body\<lparr>b_contents := Some contents_over\<rparr>\<rparr>)) ex_db))
       = [Log_error, Res_json UNPROCESSABLE_ENTITY Msg, Next]"
proof -
  have s: "p_slug (ex_put\<lparr>p_body := ex_body\<lparr>b_contents := Some contents_max\<rparr>\<rparr>) = Some ex_slug"
    "length ex_slug = 21" "b_id ex_body = Some 1"
    by (simp_all add: ex_put_def ex_slug_def ex_body_def)
  from contents_length_bound
    [of "ex_body\<lparr>b_contents := Some contents_max\<rparr>" contents_max ex_env ex_db
        "ex_put\<lparr>p_body := ex_body\<lparr>b_contents := Some contents_max\<rparr>\<rparr>" ex_slug]
    contents_length_bound
    [of "ex_body\<lparr>b_contents := Some contents_over\<rparr>" contents_over ex_env ex_db
        "ex_put\<lparr>p_body := ex_body\<lparr>b_contents := Some contents_over\<rparr>\<rparr>" ex_slug]
    length_contents_max length_contents_over s
  show ?thesis by simp
qed

section \<open>The version of a legacy request\<close>

text \<open>
  C8. GET /api/:id/:version is answered 422, with no call of \<open>data.getPlayground\<close>,
  exactly when \<open>parseInt(version, 10)\<close> is \<open>NaN\<close>; otherwise the first thing the
  handler does is call \<open>data.getPlayground\<close> with the id and the version of the path.
\<close>

theorem version_checked_by_parseInt:
  "(parseInt10 version = None \<longrightarrow>
      run (get_version en i version) d =
        (Inr (), \<lparr>committed = d, working = d,
                  events = [Log_error, Res_json UNPROCESSABLE_ENTITY Msg, Next]\<rparr>))
   \<and> (parseInt10 version \<noteq> None \<longrightarrow>
      hd (events (snd (run (get_version en i version) d))) = Ev_getPlayground i version)
   \<and> (UNPROCESSABLE_ENTITY \<in> set (codes (snd (run (get_version en i version) d))))
       = (parseInt10 version = None)
   \<and> (Ev_getPlayground i' v' \<in> set (events (snd (run (get_version en i version) d))))
       = (parseInt10 version \<noteq> None \<and> i' = i \<and> v' = version)
   \<and> status UNPROCESSABLE_ENTITY = 422"
proof (cases "parseInt10 version")
  case None
  then show ?thesis by (simp add: version_rejected codes_def)
next
  case (Some n)
  obtain e item cont where "getPlayground_result en i version = (e, item, cont)"
    by (cases "getPlayground_result en i version") auto
  with Some show ?thesis by (simp add: version_accepted codes_def)
qed

text \<open>
  Version \<open>2\<close> is looked up, version \<open>two\<close> is answered 422; a version with a sign,
  leading blanks or letters after its digits parses, and is passed on as it came.
\<close>

theorem version_checked_sample:
  "parseInt10 ''2'' = Some 2
   \<and> events (snd (run (get_version ex_env ''Hk3x'' ''2'') ex_db))
       = [Ev_getPlayground ''Hk3x'' ''2'', Log_debug,
          Res_json OK (Legacy_item (JObj []) (JStr ''x'')), Next]
   \<and> parseInt10 ''two'' = None
   \<and> events (snd (run (get_version ex_env ''Hk3x'' ''two'') ex_db))
       = [Log_error, Res_json UNPROCESSABLE_ENTITY Msg, Next]
   \<and> parseInt10 '''' = None
   \<and> parseInt10 '' -12abc'' = Some (- 12)
   \<and> hd (events (snd (run (get_version ex_env ''Hk3x'' '' -12abc'') ex_db)))
       = Ev_getPlayground ''Hk3x'' '' -12abc''"
proof -
  have p: "parseInt10 ''2'' = Some 2" "parseInt10 ''two'' = None" "parseInt10 '''' = None"
    "parseInt10 '' -12abc'' = Some (- 12)"
    by (simp_all add: parseInt10_def is_space_def is_digit_def digit_of_def)
  have g: "getPlayground_result ex_env ''Hk3x'' ''2'' = (JNull, JObj [], JStr ''x'')"
    by (simp add: ex_env_def)
  from version_checked_by_parseInt [of "''2''" ex_env "''Hk3x''" ex_db]
    version_checked_by_parseInt [of "''two''" ex_env "''Hk3x''" ex_db]
    version_checked_by_parseInt [of "'' -12abc''" ex_env "''Hk3x''" ex_db]
    version_accepted [of "''2''" ex_env "''Hk3x''" JNull "JObj []" "JStr ''x''" ex_db] p g
  show ?thesis by simp
qed

section \<open>The lookup of an update\<close>

text \<open>
  Two sample updates of row 1 with the same body, under two slugs of 21 characters that
  are both not the slug of the row: they pass the same validation and compare alike, and
  yet their traces differ, for each purges the URLs of its own slug.
\<close>

theorem put_slug_also_names_purge_urls:
  "\<not> put_invalid ex_put_other_slug
   \<and> \<not> put_invalid ex_put_third_slug
   \<and> p_body ex_put_third_slug = p_body ex_put_other_slug
   \<and> rows ex_db 1 = Some ex_row
   \<and> slug ex_row \<noteq> the (p_slug ex_put_other_slug)
   \<and> slug ex_row \<noteq> the (p_slug ex_put_third_slug)
   \<and> filter is_purge (events (snd (run (put_playground ex_env ex_put_other_slug) ex_db)))
       = [Purge (purge_urls ''Xbcdefghijklmnopqrstu'')]
   \<and> filter is_purge (events (snd (run (put_playground ex_env ex_put_third_slug) ex_db)))
       = [Purge (purge_urls ''Ybcdefghijklmnopqrstu'')]
   \<and> events (snd (run (put_playground ex_env ex_put_third_slug) ex_db))
       \<noteq> events (snd (run (put_playground ex_env ex_put_other_slug) ex_db))"
proof -
  have h: "\<not> put_invalid ex_put_other_slug" "\<not> findById_rejects ex_env"
    "b_id (p_body ex_put_other_slug) = Some 1" "rows ex_db 1 = Some ex_row"
    "\<not> update_rejects ex_env" "slug ex_row \<noteq> the (p_slug ex_put_other_slug)"
    "\<not> resend_throws ex_env"
    by (simp_all add: ex_defs)
  have h': "\<not> put_invalid ex_put_third_slug"
    "b_id (p_body ex_put_third_slug) = Some 1"
    "slug ex_row \<noteq> the (p_slug ex_put_third_slug)"
    "p_body ex_put_third_slug = p_body ex_put_other_slug"
    by (simp_all add: ex_defs ex_put_third_slug_def)
  have a: "filter is_purge (events (snd (run (put_playground ex_env ex_put_other_slug) ex_db)))
       = [Purge (purge_urls ''Xbcdefghijklmnopqrstu'')]"
    using put_mismatch_ignored [OF h] by (simp add: filter_simps ex_defs)
  have b: "filter is_purge (events (snd (run (put_playground ex_env ex_put_third_slug) ex_db)))
       = [Purge (purge_urls ''Ybcdefghijklmnopqrstu'')]"
    using put_mismatch_ignored [OF h'(1) h(2) h'(2) h(4) h(5) h'(3) h(7)]
    by (simp add: filter_simps ex_put_third_slug_def)
  have "purge_urls ''Ybcdefghijklmnopqrstu'' \<noteq> purge_urls ''Xbcdefghijklmnopqrstu''"
    by (simp add: purge_urls_def)
  with a b have "filter is_purge (events (snd (run (put_playground ex_env ex_put_third_slug) ex_db)))
       \<noteq> filter is_purge (events (snd (run (put_playground ex_env ex_put_other_slug) ex_db)))"
    by simp
  then have "events (snd (run (put_playground ex_env ex_put_third_slug) ex_db))
       \<noteq> events (snd (run (put_playground ex_env ex_put_other_slug) ex_db))"
    by auto
  with a b h h' show ?thesis by simp
qed

text \<open>
  C9, amended. A PUT request that passed validation looks its row up once, by the \<open>id\<close>
  of the body. When the row is found, the update is called next, whatever the slug; when
  the update resolved, a slug that is not the row's is answered 500 then, and a slug that
  is the row's goes on to the tags and, when these resolve, is answered 200 with the
  updated row. Every purge of the request is for the URLs of its slug. Beyond the
  validation, this comparison and the purge URLs the slug has no part: two valid requests
  with the same body, whose slugs agree on whether they equal the slug of the row found,
  leave the same trace but for the URLs of the purge, the same store, and settle alike.
\<close>

theorem put_slug_checked_compared_and_purged:
  "(\<not> put_invalid r \<longrightarrow>
      filter is_lookup (events (snd (run (put_playground en r) d)))
        = [Ev_findById (b_id (p_body r))])
   \<and> (\<not> put_invalid r \<and> \<not> findById_rejects en \<and> b_id (p_body r) = Some k
        \<and> rows d k = Some v0 \<longrightarrow>
      take 2 (events (snd (run (put_playground en r) d)))
        = [Ev_findById (Some k), Ev_update (pg_id v0)]
      \<and> (\<not> update_rejects en \<and> slug v0 \<noteq> the (p_slug r) \<longrightarrow>
           take 5 (events (snd (run (put_playground en r) d)))
             = [Ev_findById (Some k), Ev_update (pg_id v0), Log_error,
                Res_json INTERNAL_SERVER_ERROR Msg, Next])
      \<and> (\<not> update_rejects en \<and> slug v0 = the (p_slug r) \<longrightarrow>
           take 3 (events (snd (run (put_playground en r) d)))
             = [Ev_findById (Some k), Ev_update (pg_id v0), Log_info]
           \<and> (tagsData_of (p_body r) = [] \<or> \<not> set_rejects en \<longrightarrow>
                delivered (snd (run (put_playground en r) d))
                  = Some (OK, Item (updated_row v0 (p_body r) (externalJs_of (p_body r)))))))
   \<and> set (filter is_purge (events (snd (run (put_playground en r) d))))
        \<subseteq> {Purge (purge_urls (the (p_slug r)))}
   \<and> (\<not> put_invalid r \<and> \<not> put_invalid r' \<and> p_body r' = p_body r
        \<and> (\<forall>v. (case b_id (p_body r) of None \<Rightarrow> None | Some i \<Rightarrow> rows d i) = Some v
              \<longrightarrow> (slug v = the (p_slug r)) = (slug v = the (p_slug r'))) \<longrightarrow>
      map without_urls (events (snd (run (put_playground en r') d)))
        = map without_urls (events (snd (run (put_playground en r) d)))
      \<and> committed (snd (run (put_playground en r') d))
        = committed (snd (run (put_playground en r) d))
      \<and> fst (run (put_playground en r') d) = fst (run (put_playground en r) d))"
proof (intro conjI impI)
  assume "\<not> put_invalid r"
  then show "filter is_lookup (events (snd (run (put_playground en r) d)))
        = [Ev_findById (b_id (p_body r))]"
    by (rule put_lookup_events)
next
  assume a: "\<not> put_invalid r \<and> \<not> findById_rejects en \<and> b_id (p_body r) = Some k
        \<and> rows d k = Some v0"
  then have u: "take 2 (events (snd (run (put_playground en r) d)))
           = [Ev_findById (Some k), Ev_update (pg_id v0)]
         \<and> (\<not> update_rejects en \<and> slug v0 \<noteq> the (p_slug r) \<longrightarrow>
              take 5 (events (snd (run (put_playground en r) d)))
                = [Ev_findById (Some k), Ev_update (pg_id v0), Log_error,
                   Res_json INTERNAL_SERVER_ERROR Msg, Next])
         \<and> (\<not> update_rejects en \<and> slug v0 = the (p_slug r) \<longrightarrow>
              take 3 (events (snd (run (put_playground en r) d)))
                = [Ev_findById (Some k), Ev_update (pg_id v0), Log_info]
              \<and> (tagsData_of (p_body r) = [] \<or> \<not> set_rejects en \<longrightarrow>
                   delivered (snd (run (put_playground en r) d))
                     = Some (OK, Item (updated_row v0 (p_body r) (externalJs_of (p_body r))))))"
    using put_update_before_compare [where r = r and en = en and k = k and d = d and ?v0.0 = v0]
    by blast
  from u show "take 2 (events (snd (run (put_playground en r) d)))
           = [Ev_findById (Some k), Ev_update (pg_id v0)]" by blast
  {
    assume "\<not> update_rejects en \<and> slug v0 \<noteq> the (p_slug r)"
    with u show "take 5 (events (snd (run (put_playground en r) d)))
                = [Ev_findById (Some k), Ev_update (pg_id v0), Log_error,
                   Res_json INTERNAL_SERVER_ERROR Msg, Next]" by blast
  }
  {
    assume c: "\<not> update_rejects en \<and> slug v0 = the (p_slug r)"
    with u show "take 3 (events (snd (run (put_playground en r) d)))
                = [Ev_findById (Some k), Ev_update (pg_id v0), Log_info]" by blast
    {
      assume "tagsData_of (p_body r) = [] \<or> \<not> set_rejects en"
      with u c show "delivered (snd (run (put_playground en r) d))
                     = Some (OK, Item (updated_row v0 (p_body r) (externalJs_of (p_body r))))"
        by blast
    }
  }
next
  show "set (filter is_purge (events (snd (run (put_playground en r) d))))
        \<subseteq> {Purge (purge_urls (the (p_slug r)))}"
    by (rule put_purge_urls_of_slug)
next
  assume a: "\<not> put_invalid r \<and> \<not> put_invalid r' \<and> p_body r' = p_body r
        \<and> (\<forall>v. (case b_id (p_body r) of None \<Rightarrow> None | Some i \<Rightarrow> rows d i) = Some v
              \<longrightarrow> (slug v = the (p_slug r)) = (slug v = the (p_slug r')))"
  then show "map without_urls (events (snd (run (put_playground en r') d)))
        = map without_urls (events (snd (run (put_playground en r) d)))"
    using put_slug_trace [where r = r and r' = r' and d = d and en = en] by blast
  from a show "committed (snd (run (put_playground en r') d))
        = committed (snd (run (put_playground en r) d))"
    using put_slug_only_compared [where r = r and r' = r' and d = d and en = en] by blast
  from a show "fst (run (put_playground en r') d) = fst (run (put_playground en r) d)"
    using put_slug_only_compared [where r = r and r' = r' and d = d and en = en] by blast
qed

text \<open>
  The sample update under the slug of row 1 and under another slug looks up id 1 both
  times and calls the update both times; the other slug is answered 500 after the update,
  the row's slug is answered 200; under two slugs that are both not the row's, the traces
  without the purge URLs and the stores are the same.
\<close>

theorem put_slug_sample:
  "filter is_lookup (events (snd (run (put_playground ex_env ex_put) ex_db)))
     = [Ev_findById (Some 1)]
   \<and> filter is_lookup (events (snd (run (put_playground ex_env ex_put_other_slug) ex_db)))
     = [Ev_findById (Some 1)]
   \<and> take 5 (events (snd (run (put_playground ex_env ex_put_other_slug) ex_db)))
     = [Ev_findById (Some 1), Ev_update 1, Log_error, Res_json INTERNAL_SERVER_ERROR Msg, Next]
   \<and> take 3 (events (snd (run (put_playground ex_env ex_put) ex_db)))
     = [Ev_findById (Some 1), Ev_update 1, Log_info]
   \<and> delivered (snd (run (put_playground ex_env ex_put) ex_db))
     = Some (OK, Item (updated_row ex_row ex_body (JArr [])))
   \<and> map without_urls (events (snd (run (put_playground ex_env ex_put_third_slug) ex_db)))
     = map without_urls (events (snd (run (put_playground ex_env ex_put_other_slug) ex_db)))
   \<and> committed (snd (run (put_playground ex_env ex_put_third_slug) ex_db))
     = committed (snd (run (put_playground ex_env ex_put_other_slug) ex_db))"
proof -
  have h: "\<not> put_invalid ex_put" "\<not> put_invalid ex_put_other_slug"
    "\<not> put_invalid ex_put_third_slug" "\<not> findById_rejects ex_env"
    "p_body ex_put_third_slug = p_body ex_put_other_slug"
    "b_id (p_body ex_put) = Some 1" "b_id (p_body ex_put_other_slug) = Some 1"
    "rows ex_db 1 = Some ex_row" "pg_id ex_row = 1" "\<not> update_rejects ex_env"
    "slug ex_row = the (p_slug ex_put)"
    "slug ex_row \<noteq> the (p_slug ex_put_other_slug)"
    "slug ex_row \<noteq> the (p_slug ex_put_third_slug)"
    "\<not> set_rejects ex_env" "p_body ex_put = ex_body" "externalJs_of ex_body = JArr []"
    by (simp_all add: ex_defs ex_put_third_slug_def)
  from put_slug_checked_compared_and_purged
      [where r = ex_put and en = ex_env and d = ex_db and k = 1 and ?v0.0 = ex_row
        and r' = ex_put]
    put_slug_checked_compared_and_purged
      [where r = ex_put_other_slug and en = ex_env and d = ex_db and k = 1 and ?v0.0 = ex_row
        and r' = ex_put_third_slug] h
  show ?thesis by simp
qed

section \<open>The cache purge\<close>

text \<open>
  The sample update with a store that rejects the tag replacement: the update resolved
  (the row is written, the tag replacement is attempted), and the trace holds no purge.
\<close>

theorem put_tag_failure_issues_no_purge:
  "\<not> update_rejects ex_env_set_rejects
   \<and> events (snd (run (put_playground ex_env_set_rejects ex_put) ex_db))
     = [Ev_findById (Some 1), Ev_update 1, Log_info, Log_info,
        Ev_set_tags 1 [\<lparr>tag_id = JNum 7\<rparr>, \<lparr>tag_id = JNum 9\<rparr>], Log_error,
        Res_json INTERNAL_SERVER_ERROR Msg, Next, Commit]
   \<and> filter is_purge (events (snd (run (put_playground ex_env_set_rejects ex_put) ex_db))) = []"
  by (subst (1 2) put_tags_fail [where k = 1 and ?v0.0 = ex_row])
     (simp_all add: ex_defs ex_env_set_rejects_def skipped_def well_formed_tags_def
        well_formed_def numeric_id_def)

text \<open>
  C10, amended. On PUT the purge is called once, with the four URLs made from the slug
  of the request, and before the transaction ends, whenever the update resolves and the
  tag replacement, where there is one, resolves too; the path of the mismatched slug is
  among these. It is not called when validation fails, when the lookup rejects or finds no
  row, when the update rejects, or when the tag replacement rejects. Whether the purge
  fails changes neither what the handler settles to, nor the codes it answers, nor the
  store.
\<close>

theorem purge_when_update_and_tags_resolve:
  "(put_invalid r \<or> findById_rejects en
      \<or> (case b_id (p_body r) of None \<Rightarrow> None | Some k \<Rightarrow> rows d k) = None \<longrightarrow>
      filter is_purge (events (snd (run (put_playground en r) d))) = [])
   \<and> (\<not> put_invalid r \<and> \<not> findById_rejects en \<and> b_id (p_body r) = Some k
        \<and> rows d k = Some v0 \<longrightarrow>
      (update_rejects en
         \<or> (slug v0 = the (p_slug r) \<and> tagsData_of (p_body r) \<noteq> [] \<and> set_rejects en) \<longrightarrow>
         filter is_purge (events (snd (run (put_playground en r) d))) = [])
      \<and> (\<not> update_rejects en
          \<and> (slug v0 \<noteq> the (p_slug r) \<or> tagsData_of (p_body r) = [] \<or> \<not> set_rejects en) \<longrightarrow>
         filter is_purge (events (snd (run (put_playground en r) d)))
           = [Purge (purge_urls (the (p_slug r)))]
         \<and> filter is_purge
             (takeWhile (\<lambda>e. \<not> is_tx_end e) (events (snd (run (put_playground en r) d))))
           = [Purge (purge_urls (the (p_slug r)))]))
   \<and> purge_urls s =
       [''https://pixiplayground.com/api/playground/'' @ s,
        ''https://www.pixiplayground.com/api/playground/'' @ s,
        ''http://pixiplayground.com/api/playground/'' @ s,
        ''http://www.pixiplayground.com/api/playground/'' @ s]
   \<and> fst (run (put_playground (en\<lparr>purge_fails := x\<rparr>) r) d) = fst (run (put_playground en r) d)
   \<and> codes (snd (run (put_playground (en\<lparr>purge_fails := x\<rparr>) r) d))
       = codes (snd (run (put_playground en r) d))
   \<and> committed (snd (run (put_playground (en\<lparr>purge_fails := x\<rparr>) r) d))
       = committed (snd (run (put_playground en r) d))"
proof (intro conjI impI)
  assume "put_invalid r \<or> findById_rejects en
      \<or> (case b_id (p_body r) of None \<Rightarrow> None | Some k \<Rightarrow> rows d k) = None"
  then show "filter is_purge (events (snd (run (put_playground en r) d))) = []"
    using put_no_purge [of r en d] by blast
next
  assume a: "\<not> put_invalid r \<and> \<not> findById_rejects en \<and> b_id (p_body r) = Some k
        \<and> rows d k = Some v0"
    and b: "update_rejects en
         \<or> (slug v0 = the (p_slug r) \<and> tagsData_of (p_body r) \<noteq> [] \<and> set_rejects en)"
  then show "filter is_purge (events (snd (run (put_playground en r) d))) = []"
    using put_no_purge [of r en d] by blast
next
  assume a: "\<not> put_invalid r \<and> \<not> findById_rejects en \<and> b_id (p_body r) = Some k
        \<and> rows d k = Some v0"
    and b: "\<not> update_rejects en
          \<and> (slug v0 \<noteq> the (p_slug r) \<or> tagsData_of (p_body r) = [] \<or> \<not> set_rejects en)"
  from a b put_purges [of r en k d v0]
  show "filter is_purge (events (snd (run (put_playground en r) d)))
           = [Purge (purge_urls (the (p_slug r)))]"
    and "filter is_purge
             (takeWhile (\<lambda>e. \<not> is_tx_end e) (events (snd (run (put_playground en r) d))))
           = [Purge (purge_urls (the (p_slug r)))]"
    by blast+
next
  show "purge_urls s =
       [''https://pixiplayground.com/api/playground/'' @ s,
        ''https://www.pixiplayground.com/api/playground/'' @ s,
        ''http://pixiplayground.com/api/playground/'' @ s,
        ''http://www.pixiplayground.com/api/playground/'' @ s]"
    by (simp add: purge_urls_def)
next
  show "fst (run (put_playground (en\<lparr>purge_fails := x\<rparr>) r) d) = fst (run (put_playground en r) d)"
    and "codes (snd (run (put_playground (en\<lparr>purge_fails := x\<rparr>) r) d))
       = codes (snd (run (put_playground en r) d))"
    and "committed (snd (run (put_playground (en\<lparr>purge_fails := x\<rparr>) r) d))
       = committed (snd (run (put_playground en r) d))"
    using put_purge_failure_ignored [where en = en and x = x and r = r and d = d] by simp_all
qed

text \<open>
  The sample update purges the four URLs of its slug, and so does the update under
  another slug; a slug that is too short, an unknown id and a rejected tag replacement
  purge nothing.
\<close>

theorem purge_sample:
  "filter is_purge (events (snd (run (put_playground ex_env ex_put) ex_db)))
     = [Purge [''https://pixiplayground.com/api/playground/abcdefghijklmnopqrstu'',
               ''https://www.pixiplayground.com/api/playground/abcdefghijklmnopqrstu'',
               ''http://pixiplayground.com/api/playground/abcdefghijklmnopqrstu'',
               ''http://www.pixiplayground.com/api/playground/abcdefghijklmnopqrstu'']]
   \<and> filter is_purge (events (snd (run (put_playground ex_env ex_put_other_slug) ex_db)))
     = [Purge (purge_urls ''Xbcdefghijklmnopqrstu'')]
   \<and> filter is_purge (events (snd (run (put_playground ex_env ex_put_short_slug) ex_db))) = []
   \<and> filter is_purge (events (snd (run (put_playground ex_env ex_put_unknown_id) ex_db))) = []
   \<and> filter is_purge (events (snd (run (put_playground ex_env_set_rejects ex_put) ex_db))) = []
   \<and> codes (snd (run (put_playground (ex_env\<lparr>purge_fails := True\<rparr>) ex_put) ex_db))
       = codes (snd (run (put_playground ex_env ex_put) ex_db))"
proof -
  have h: "\<not> put_invalid ex_put" "\<not> put_invalid ex_put_other_slug" "put_invalid ex_put_short_slug"
    "\<not> put_invalid ex_put_unknown_id"
    "\<not> findById_rejects ex_env" "\<not> findById_rejects ex_env_set_rejects"
    "b_id (p_body ex_put) = Some 1" "b_id (p_body ex_put_other_slug) = Some 1"
    "b_id (p_body ex_put_unknown_id) = Some 9" "rows ex_db 9 = None"
    "rows ex_db 1 = Some ex_row" "\<not> update_rejects ex_env" "\<not> update_rejects ex_env_set_rejects"
    "slug ex_row = the (p_slug ex_put)" "slug ex_row \<noteq> the (p_slug ex_put_other_slug)"
    "tagsData_of (p_body ex_put) \<noteq> []" "\<not> set_rejects ex_env" "set_rejects ex_env_set_rejects"
    "the (p_slug ex_put) = ''abcdefghijklmnopqrstu''"
    "the (p_slug ex_put_other_slug) = ''Xbcdefghijklmnopqrstu''"
    by (simp_all add: ex_defs ex_env_set_rejects_def ex_put_short_slug_def ex_put_unknown_id_def)
  from purge_when_update_and_tags_resolve [where r = ex_put and en = ex_env and d = ex_db and k = 1
      and ?v0.0 = ex_row and s = "''abcdefghijklmnopqrstu''" and x = True]
    purge_when_update_and_tags_resolve [where r = ex_put_other_slug and en = ex_env and d = ex_db
      and k = 1 and ?v0.0 = ex_row]
    purge_when_update_and_tags_resolve [where r = ex_put_short_slug and en = ex_env and d = ex_db]
    purge_when_update_and_tags_resolve [where r = ex_put_unknown_id and en = ex_env and d = ex_db]
    purge_when_update_and_tags_resolve [where r = ex_put and en = ex_env_set_rejects and d = ex_db
      and k = 1 and ?v0.0 = ex_row] h
  show ?thesis by simp
qed

end
